theory Spec2Isabelle
  imports Main "HOL-Library.Multiset"
begin

section \<open>JavaScript values shared by both components\<close>

text \<open>
  An optional string of the source (\<open>string | undefined\<close>) is a \<open>string option\<close>.
  JavaScript tests such a value by its truthiness (\<open>if (x)\<close>, \<open>x && y\<close>, \<open>x || d\<close>):
  \<open>undefined\<close> and the empty string are falsy, every other string is truthy.
\<close>

definition truthy :: "string option \<Rightarrow> bool" where
  "truthy x = (case x of None \<Rightarrow> False | Some s \<Rightarrow> s \<noteq> [])"

text \<open>\<open>x || d\<close> on an optional string and a default.\<close>

definition or_else :: "string option \<Rightarrow> string \<Rightarrow> string" where
  "or_else x d = (case x of None \<Rightarrow> d | Some s \<Rightarrow> if s = [] then d else s)"


section \<open>AuthGuard\<close>

text \<open>
  The values the component reads in one render: \<open>useAccount\<close> gives \<open>isConnected\<close> and
  \<open>address\<close>, \<open>useNetwork\<close> gives \<open>chain\<close>, \<open>useSiweIdentity\<close> gives \<open>clear\<close>,
  \<open>isInitializing\<close>, \<open>identity\<close> and \<open>identityAddress\<close>.

  \<open>chain\<close> is an object and \<open>clear\<close> a function: React compares dependencies with
  \<open>Object.is\<close>, that is by reference. Each carries its reference as a number, so that
  equality of the modelled values is equality of references (an object is not mutated
  between renders, so equal references have equal contents).
\<close>

record chain =
  chain_ref :: nat
  chain_id :: int

record 'cred signals =
  isConnected :: bool
  address :: "string option"
  chain :: "chain option"
  clear_ref :: nat
  isInitializing :: bool
  identity :: "'cred option"
  identityAddress :: "string option"

text \<open>
  Modelled from the spec: \<open>isChainIdSupported\<close> is imported from
  \<open>./wagmi/is-chain-id-supported\<close>, which is not among the sources. The spec describes it as
  membership of the active network id in the supported-network set; the set is the
  parameter \<open>supported\<close>, and an absent id (\<open>chain?.id\<close> of an undefined chain) is not a
  member.
\<close>

definition isChainIdSupported :: "int list \<Rightarrow> int option \<Rightarrow> bool" where
  "isChainIdSupported supported cid =
     (case cid of None \<Rightarrow> False | Some i \<Rightarrow> i \<in> set supported)"

text \<open>\<open>chain?.id\<close>\<close>

definition chain_id_opt :: "chain option \<Rightarrow> int option" where
  "chain_id_opt c = map_option chain_id c"

text \<open>
  The bodies of the three effects: each returns whether it calls \<open>clear()\<close>.
\<close>

definition effect_connected :: "'cred signals \<Rightarrow> bool" where
  "effect_connected s = (\<not> isConnected s)"

definition effect_network :: "int list \<Rightarrow> 'cred signals \<Rightarrow> bool" where
  "effect_network supported s = (\<not> isChainIdSupported supported (chain_id_opt (chain s)))"

definition effect_address :: "'cred signals \<Rightarrow> bool" where
  "effect_address s =
     (truthy (identityAddress s) \<and> truthy (address s) \<and> address s \<noteq> identityAddress s)"

text \<open>
  The dependency arrays: \<open>[isConnected, clear]\<close>, \<open>[chain, clear]\<close> and
  \<open>[address, clear, identityAddress]\<close>. An effect runs after the first render (no previous
  render: \<open>None\<close>) and after a render in which one of its dependencies differs from the
  previous render.
\<close>

definition deps_connected :: "'cred signals \<Rightarrow> bool \<times> nat" where
  "deps_connected s = (isConnected s, clear_ref s)"

definition deps_network :: "'cred signals \<Rightarrow> chain option \<times> nat" where
  "deps_network s = (chain s, clear_ref s)"

definition deps_address :: "'cred signals \<Rightarrow> string option \<times> nat \<times> string option" where
  "deps_address s = (address s, clear_ref s, identityAddress s)"

definition runs :: "('cred signals \<Rightarrow> 'd) \<Rightarrow> 'cred signals option \<Rightarrow> 'cred signals \<Rightarrow> bool" where
  "runs deps prev cur = (case prev of None \<Rightarrow> True | Some p \<Rightarrow> deps p \<noteq> deps cur)"

text \<open>
  One effect cycle: the effects that run, in the order of the source, and the number of
  calls of \<open>clear()\<close> they make together.
\<close>

definition clear_calls :: "int list \<Rightarrow> 'cred signals option \<Rightarrow> 'cred signals \<Rightarrow> nat" where
  "clear_calls supported prev cur =
     (if runs deps_connected prev cur \<and> effect_connected cur then 1 else 0)
   + (if runs deps_network prev cur \<and> effect_network supported cur then 1 else 0)
   + (if runs deps_address prev cur \<and> effect_address cur then 1 else 0)"

text \<open>The render decision: the login page or the children.\<close>

datatype rendered = LoginPage | Children

definition AuthGuard :: "'cred signals \<Rightarrow> rendered" where
  "AuthGuard s =
     (if \<not> isInitializing s \<and> (\<not> isConnected s \<or> identity s = None) then LoginPage
      else Children)"

section \<open>VideoGrid: data\<close>

text \<open>
  A video record as the component reads it (\<open>any\<close> in the source): \<open>video_id\<close>,
  \<open>title\<close>, \<open>uploader_principal\<close>, \<open>timestamp\<close> (a \<open>bigint\<close>) and \<open>storage_ref\<close>.
  \<open>storage_ref\<close> is tested three ways by the source: for truthiness, with
  \<open>Array.isArray\<close> and with \<open>typeof ... === 'string'\<close>; \<open>NoRef\<close> is a falsy value that
  is not a string (\<open>undefined\<close>, \<open>null\<close>), \<open>RefOther\<close> a truthy value that is neither an
  array nor a string. The elements of an array are strings (an optional text arrives
  from the backend as an array of none or one).
\<close>

datatype storage_ref = NoRef | RefArray "string list" | RefString string | RefOther

record video =
  video_id :: "string option"
  title :: string
  uploader_principal :: string
  timestamp :: int
  storage_ref :: storage_ref

text \<open>
  A thrown value: an \<open>Error\<close> instance with its \<open>message\<close>, or any other value with its
  \<open>String(err)\<close> rendering.
\<close>

datatype js_exn = JsError string | JsThrown string

fun exn_text :: "js_exn \<Rightarrow> string" where
  "exn_text (JsError m) = m"
| "exn_text (JsThrown s) = s"

text \<open>
  What a backend query resolves to: the array of videos, or \<open>null\<close> / \<open>undefined\<close>
  (the source declares \<open>any[]\<close> and silences the type checker at both calls). A query that
  throws, or whose promise rejects, is \<open>Inl\<close> of the thrown value.
\<close>

datatype js_list = JsUndefined | JsNull | JsArray "video list"

type_synonym response = "js_exn + js_list"

text \<open>
  The backend client returned by \<open>useActor\<close>: \<open>actor.actor\<close> (present or not),
  \<open>list_videos_by_tag\<close>, and \<open>search_videos\<close>, which the source tests for before calling it
  (\<open>None\<close>: the client has no such function). The two filter arguments of \<open>search_videos\<close>
  are arrays; the source only ever passes empty ones.
\<close>

record backend_actor =
  nested_actor :: bool
  list_videos_by_tag :: "string \<Rightarrow> response"
  search_videos :: "(string \<Rightarrow> nat list \<Rightarrow> nat list \<Rightarrow> response) option"

datatype backend_call = ListVideosByTag string | SearchVideos string "nat list" "nat list"

text \<open>
  The component's own state: the three \<open>useState\<close> cells and \<open>prevFetchIdRef\<close>.
\<close>

record grid_state =
  videos :: "video list"
  loading :: bool
  error :: "string option"
  prevFetchId :: "string option"

definition initial_state :: grid_state where
  "initial_state = \<lparr>videos = [], loading = True, error = None, prevFetchId = None\<rparr>"


section \<open>VideoGrid: strings and numbers of the language\<close>

text \<open>
  \<open>String.prototype.toLowerCase\<close> is a function of the language, defined on all of
  Unicode. The loader below takes it as its parameter \<open>toLowerCase\<close>, so what is proved
  of the loader holds for the function of the language, whatever it does to a string.

  \<open>ascii_toLowerCase\<close> is that function on strings of ASCII characters only, for the
  examples: \<open>A\<close> to \<open>Z\<close> (codes 65 to 90) move to \<open>a\<close> to \<open>z\<close> (32 higher:
  binary digit 5 of the code, clear in 65 to 90, is set), every other ASCII character
  stays. It says nothing of a string with a character beyond ASCII.
\<close>

definition lower_char :: "char \<Rightarrow> char" where
  "lower_char c =
     (if 65 \<le> (of_char c :: nat) \<and> (of_char c :: nat) \<le> 90
      then (case c of Char b0 b1 b2 b3 b4 b5 b6 b7 \<Rightarrow> Char b0 b1 b2 b3 b4 True b6 b7)
      else c)"

definition ascii_toLowerCase :: "string \<Rightarrow> string" where
  "ascii_toLowerCase s = map lower_char s"

text \<open>The number of binary digits of a natural number.\<close>

function bit_length :: "nat \<Rightarrow> nat" where
  "bit_length n = (if n = 0 then 0 else Suc (bit_length (n div 2)))"
  by pat_completeness auto
termination
  by (relation "measure id") auto

declare bit_length.simps [simp del]

text \<open>
  \<open>round_div a b\<close> is the integer nearest to \<open>a / b\<close>, a tie going to the even one: the
  rounding of IEEE 754 double arithmetic.
\<close>

definition round_div :: "nat \<Rightarrow> nat \<Rightarrow> nat" where
  "round_div a b =
     (let q = a div b; r = a mod b
      in if 2 * r < b then q
         else if b < 2 * r then q + 1
         else if even q then q else q + 1)"

text \<open>
  \<open>Number(t)\<close> of a \<open>bigint\<close>: the double nearest to \<open>t\<close>. Up to 53 binary digits the
  value is exact; beyond, it is rounded to 53 significant digits. The result is again an
  integer.
\<close>

definition Number :: "int \<Rightarrow> int" where
  "Number t =
     (let a = nat \<bar>t\<bar>; l = bit_length a
      in if l \<le> 53 then t
         else sgn t * int (round_div a (2 ^ (l - 53)) * 2 ^ (l - 53)))"

text \<open>
  A double that is not an integer is kept exactly, as \<open>mantissa / 2 ^ scale\<close>.
\<close>

record dyadic =
  mantissa :: nat
  scale :: nat

text \<open>
  \<open>n / d\<close> on two numbers that hold the integers \<open>n \<ge> d > 0\<close> exactly: the double
  nearest to the quotient. The quotient has \<open>l\<close> binary digits before the point, so the
  53 significant digits of the result reach \<open>53 - l\<close> digits behind it.
\<close>

definition js_div :: "nat \<Rightarrow> nat \<Rightarrow> dyadic" where
  "js_div n d =
     (let l = bit_length (n div d)
      in if l \<le> 53 then \<lparr>mantissa = round_div (n * 2 ^ (53 - l)) d, scale = 53 - l\<rparr>
         else \<lparr>mantissa = round_div n (d * 2 ^ (l - 53)) * 2 ^ (l - 53), scale = 0\<rparr>)"

text \<open>Decimal digits of a natural number, as \<open>Number.prototype.toString\<close> prints an integer.\<close>

definition digit_char :: "nat \<Rightarrow> char" where
  "digit_char k =
     (if k = 0 then CHR ''0'' else if k = 1 then CHR ''1'' else if k = 2 then CHR ''2''
      else if k = 3 then CHR ''3'' else if k = 4 then CHR ''4'' else if k = 5 then CHR ''5''
      else if k = 6 then CHR ''6'' else if k = 7 then CHR ''7'' else if k = 8 then CHR ''8''
      else CHR ''9'')"

function show_nat :: "nat \<Rightarrow> string" where
  "show_nat n = (if n < 10 then [digit_char n] else show_nat (n div 10) @ [digit_char (n mod 10)])"
  by pat_completeness auto
termination
  by (relation "measure id") auto

declare show_nat.simps [simp del]

text \<open>
  \<open>x.toFixed(1)\<close> for \<open>0 \<le> x < 10^21\<close>: with \<open>t\<close> the integer for which \<open>t / 10 - x\<close>
  is closest to zero (the larger one if there are two), the digits of \<open>t\<close> with a point
  before the last one. \<open>tenths x\<close> is that \<open>t\<close>, computed on the exact value of the double.
\<close>

definition tenths :: "dyadic \<Rightarrow> nat" where
  "tenths x = (20 * mantissa x + 2 ^ scale x) div 2 ^ (scale x + 1)"

definition toFixed1 :: "dyadic \<Rightarrow> string" where
  "toFixed1 x = show_nat (tenths x div 10) @ ''.'' @ show_nat (tenths x mod 10)"


section \<open>VideoGrid: the display helpers\<close>

text \<open>\<open>formatViewCount\<close>, on a count (\<open>cnt\<close>) that is a non-negative integer.\<close>

definition formatViewCount :: "nat \<Rightarrow> string" where
  "formatViewCount cnt =
     (if cnt \<ge> 1000000 then toFixed1 (js_div cnt 1000000) @ ''M''
      else if cnt \<ge> 1000 then toFixed1 (js_div cnt 1000) @ ''K''
      else show_nat cnt)"

text \<open>
  \<open>getVideoThumbnail\<close>. \<open>env\<close> is \<open>import.meta.env.VITE_GATEWAY_URL\<close>.
  \<open>resolve_storage_ref\<close> is the constant \<open>storageRef\<close> of the source: the first element
  of an array (\<open>undefined\<close> for an empty one), the string itself, or \<open>null\<close>.
\<close>

definition ref_truthy :: "storage_ref \<Rightarrow> bool" where
  "ref_truthy r = (case r of NoRef \<Rightarrow> False | RefArray xs \<Rightarrow> True
                   | RefString s \<Rightarrow> s \<noteq> [] | RefOther \<Rightarrow> True)"

definition resolve_storage_ref :: "storage_ref \<Rightarrow> string option" where
  "resolve_storage_ref r =
     (case r of RefArray xs \<Rightarrow> (case xs of [] \<Rightarrow> None | x # _ \<Rightarrow> Some x)
      | RefString s \<Rightarrow> Some s
      | _ \<Rightarrow> None)"

definition default_gateway :: string where
  "default_gateway = ''salmon-worthy-hawk-798.mypinata.cloud''"

definition playback_thumbnail :: "string \<Rightarrow> string" where
  "playback_thumbnail vid =
     ''https://vod-cdn.lp-playback.studio/hls/'' @ vid @ ''/thumbnails/keyframes_0.jpg''"

definition ipfs_thumbnail :: "string \<Rightarrow> string \<Rightarrow> string" where
  "ipfs_thumbnail gatewayDomain cid =
     ''https://'' @ gatewayDomain @ ''/ipfs/'' @ cid @ ''/thumbnail.jpg''"

definition storage_thumbnail :: "string option \<Rightarrow> video \<Rightarrow> string" where
  "storage_thumbnail env v =
     (if ref_truthy (storage_ref v) then
        (case resolve_storage_ref (storage_ref v) of
           Some storageRef \<Rightarrow>
             if storageRef \<noteq> [] \<and> take 5 storageRef = ''ipfs:''
             then ipfs_thumbnail (or_else env default_gateway) (drop 5 storageRef)
             else ''/header.png''
         | None \<Rightarrow> ''/header.png'')
      else ''/header.png'')"

definition getVideoThumbnail :: "string option \<Rightarrow> video \<Rightarrow> string" where
  "getVideoThumbnail env v =
     (case video_id v of
        Some vid \<Rightarrow> if vid \<noteq> [] then playback_thumbnail vid else storage_thumbnail env v
      | None \<Rightarrow> storage_thumbnail env v)"


section \<open>VideoGrid: the loader\<close>

text \<open>
  \<open>Array.prototype.sort\<close> with a comparison function. The sort of the language is
  stable; a stable insertion sort gives the same array for a comparison function that is
  consistent, as the one below is. \<open>cmp a b \<le> 0\<close> keeps \<open>a\<close> before \<open>b\<close>.
\<close>

fun js_insert :: "('a \<Rightarrow> 'a \<Rightarrow> int) \<Rightarrow> 'a \<Rightarrow> 'a list \<Rightarrow> 'a list" where
  "js_insert cmp x [] = [x]"
| "js_insert cmp x (y # ys) = (if cmp x y \<le> 0 then x # y # ys else y # js_insert cmp x ys)"

fun js_sort :: "('a \<Rightarrow> 'a \<Rightarrow> int) \<Rightarrow> 'a list \<Rightarrow> 'a list" where
  "js_sort cmp [] = []"
| "js_sort cmp (x # xs) = js_insert cmp x (js_sort cmp xs)"

text \<open>
  \<open>(a, b) => Number(b.timestamp) - Number(a.timestamp)\<close>. Both operands are integers;
  the double subtraction may round their difference but never changes its sign, which
  is all the sort reads.
\<close>

definition newest_first :: "video \<Rightarrow> video \<Rightarrow> int" where
  "newest_first a b = Number (timestamp b) - Number (timestamp a)"

text \<open>
  The \<open>if\<close> of lines 78 to 120: the value of \<open>videoList\<close> once the inner handlers are
  done, and the backend calls made. In the tag branch a rejected query is caught and
  gives the empty array; so does a query that resolves to \<open>null\<close> or \<open>undefined\<close>,
  since reading \<open>videoList.length\<close> for the log line throws inside the same \<open>try\<close>. In
  the other branch nothing between the call and the end of the \<open>try\<close> reads a property
  of \<open>videoList\<close> unguarded, so \<open>null\<close> and \<open>undefined\<close> pass through.
\<close>

definition query_videos :: "(string \<Rightarrow> string) \<Rightarrow> backend_actor \<Rightarrow> string option \<Rightarrow> js_list \<times> backend_call list" where
  "query_videos toLowerCase a tag =
     (if truthy tag \<and> tag \<noteq> Some ''all'' \<and> tag \<noteq> Some ''All'' then
        (case tag of
           None \<Rightarrow> (JsArray [], [])
         | Some t \<Rightarrow>
             (case list_videos_by_tag a (toLowerCase t) of
                Inl err \<Rightarrow> (JsArray [], [ListVideosByTag (toLowerCase t)])
              | Inr JsUndefined \<Rightarrow> (JsArray [], [ListVideosByTag (toLowerCase t)])
              | Inr JsNull \<Rightarrow> (JsArray [], [ListVideosByTag (toLowerCase t)])
              | Inr (JsArray vs) \<Rightarrow> (JsArray vs, [ListVideosByTag (toLowerCase t)])))
      else
        (case search_videos a of
           None \<Rightarrow> (JsArray [], [])
         | Some search \<Rightarrow>
             (case search '''' [] [] of
                Inl searchErr \<Rightarrow> (JsArray [], [SearchVideos '''' [] []])
              | Inr videoList \<Rightarrow> (videoList, [SearchVideos '''' [] []]))))"

text \<open>
  Lines 122 to 128: the sort, guarded by \<open>videoList && videoList.length > 0\<close>, then the
  unguarded \<open>videoList.length\<close> of the log line, which throws a \<open>TypeError\<close> on \<open>null\<close>
  and \<open>undefined\<close> (the message is the engine's; V8's is given). The result is the
  array passed to \<open>setVideos\<close>, or the exception that reaches the outer \<open>catch\<close>.
\<close>

definition cannot_read_length :: "string \<Rightarrow> js_exn" where
  "cannot_read_length what =
     JsError (''Cannot read properties of '' @ what @ '' (reading 'length')'')"

definition sort_videos :: "js_list \<Rightarrow> js_exn + video list" where
  "sort_videos videoList =
     (case videoList of
        JsUndefined \<Rightarrow> Inl (cannot_read_length ''undefined'')
      | JsNull \<Rightarrow> Inl (cannot_read_length ''null'')
      | JsArray vs \<Rightarrow> Inr (if length vs > 0 then js_sort newest_first vs else vs))"

text \<open>
  The body of the outer \<open>try\<close>: \<open>Inl\<close> is an exception that no inner handler caught.
\<close>

definition try_block :: "(string \<Rightarrow> string) \<Rightarrow> backend_actor \<Rightarrow> string option \<Rightarrow> js_exn + video list" where
  "try_block toLowerCase a tag = sort_videos (fst (query_videos toLowerCase a tag))"

text \<open>
  \<open>fetchVideos\<close>: what the fetch does to the state when its promise settles, and the
  backend calls it makes. \<open>st\<close> is the state of the component at that moment: the
  setters overwrite their cell and read nothing. Without a client only
  \<open>setLoading(false)\<close> runs. Otherwise \<open>setVideos(videoList)\<close> ends the \<open>try\<close>, the
  \<open>catch\<close> runs \<open>setError\<close> and \<open>setVideos([])\<close>, and \<open>finally\<close> runs
  \<open>setLoading(false)\<close>.
\<close>

definition fetchVideos ::
  "(string \<Rightarrow> string) \<Rightarrow> backend_actor option \<Rightarrow> string option \<Rightarrow> grid_state \<Rightarrow> grid_state \<times> backend_call list" where
  "fetchVideos toLowerCase actor tag st =
     (case actor of
        None \<Rightarrow> (st\<lparr>loading := False\<rparr>, [])
      | Some a \<Rightarrow>
          ((case try_block toLowerCase a tag of
              Inr videoList \<Rightarrow> st\<lparr>videos := videoList\<rparr>
            | Inl err \<Rightarrow>
                st\<lparr>error := Some (''Failed to load videos: '' @ exn_text err), videos := []\<rparr>)
           \<lparr>loading := False\<rparr>,
           snd (query_videos toLowerCase a tag)))"

text \<open>
  The effect that loads the videos. \<open>fetchId\<close> is the key of the fetch; the effect returns
  before it is computed unless \<open>actor\<close> and \<open>actor.actor\<close> are both there. The effect
  calls \<open>fetchVideos()\<close> and does not wait for it: \<open>start_fetch\<close> is what the effect does
  before it returns, and \<open>Some\<close> is the fetch it has started, with the client and the tag
  the fetch has captured.
\<close>

definition fetchId :: "backend_actor \<Rightarrow> string option \<Rightarrow> string" where
  "fetchId a tag =
     (if nested_actor a then ''has-nested-actor'' else ''no-nested-actor'')
     @ ''-'' @ or_else tag ''all''"

type_synonym pending_fetch = "backend_actor \<times> string option"

definition start_fetch ::
  "backend_actor option \<Rightarrow> string option \<Rightarrow> grid_state
   \<Rightarrow> grid_state \<times> pending_fetch option" where
  "start_fetch actor tag st =
     (case actor of
        None \<Rightarrow> (st, None)
      | Some a \<Rightarrow>
          if \<not> nested_actor a then (st, None)
          else if prevFetchId st \<noteq> Some (fetchId a tag) then
            (st\<lparr>loading := True, error := None, prevFetchId := Some (fetchId a tag)\<rparr>,
             Some (a, tag))
          else (st, None))"

text \<open>A started fetch settles: its setters run on the state of that moment.\<close>

definition settle_fetch ::
  "(string \<Rightarrow> string) \<Rightarrow> pending_fetch \<Rightarrow> grid_state \<Rightarrow> grid_state" where
  "settle_fetch toLowerCase f st = fst (fetchVideos toLowerCase (Some (fst f)) (snd f) st)"

text \<open>
  \<open>load_effect\<close> is the effect followed at once by the settling of the fetch it has
  started, with nothing in between: the run of the component in which no fetch overlaps
  another. The result says whether \<open>fetchVideos\<close> was called, and gives the state after
  the effect and the fetch, and the backend calls of the fetch.
\<close>

definition load_effect ::
  "(string \<Rightarrow> string) \<Rightarrow> backend_actor option \<Rightarrow> string option \<Rightarrow> grid_state
   \<Rightarrow> bool \<times> grid_state \<times> backend_call list" where
  "load_effect toLowerCase actor tag st =
     (case start_fetch actor tag st of
        (st1, None) \<Rightarrow> (False, st1, [])
      | (st1, Some f) \<Rightarrow>
          (True, settle_fetch toLowerCase f st1,
           snd (fetchVideos toLowerCase (Some (fst f)) (snd f) st1)))"

text \<open>
  The component over time: the state and the fetches in flight, oldest first. An event
  is a run of the effect, or the settling of the fetch at a position of the list. The
  source has no token that would tell a fetch it has been overtaken, so every fetch in
  flight may settle, in any order. (A fetch that reaches no \<open>await\<close>, as with no search
  function, settles inside the effect; here it may also settle later, which only adds
  runs.)
\<close>

datatype event = EffectRuns "backend_actor option" "string option" | FetchSettles nat

fun step ::
  "(string \<Rightarrow> string) \<Rightarrow> event \<Rightarrow> grid_state \<times> pending_fetch list
   \<Rightarrow> grid_state \<times> pending_fetch list" where
  "step toLowerCase (EffectRuns actor tag) (st, fs) =
     (case start_fetch actor tag st of
        (st1, None) \<Rightarrow> (st1, fs)
      | (st1, Some f) \<Rightarrow> (st1, fs @ [f]))"
| "step toLowerCase (FetchSettles k) (st, fs) =
     (if k < length fs
      then (settle_fetch toLowerCase (fs ! k) st, take k fs @ drop (Suc k) fs)
      else (st, fs))"

fun run_events ::
  "(string \<Rightarrow> string) \<Rightarrow> event list \<Rightarrow> grid_state \<times> pending_fetch list
   \<Rightarrow> grid_state \<times> pending_fetch list" where
  "run_events toLowerCase [] c = c"
| "run_events toLowerCase (e # es) c = run_events toLowerCase es (step toLowerCase e c)"

text \<open>
  \<open>renderBranch\<close>: which of the four panels the component renders.
\<close>

definition renderBranch :: "grid_state \<Rightarrow> string" where
  "renderBranch st =
     (if truthy (error st) then ''error''
      else if loading st then ''loading''
      else if length (videos st) = 0 then ''empty''
      else ''videos'')"

section \<open>AuthGuard: the effects clear the session\<close>

lemma clear_calls_pos_iff:
  "0 < clear_calls supported prev cur \<longleftrightarrow>
     runs deps_connected prev cur \<and> effect_connected cur
   \<or> runs deps_network prev cur \<and> effect_network supported cur
   \<or> runs deps_address prev cur \<and> effect_address cur"
  by (simp add: clear_calls_def)

lemma runs_connected_iff:
  "runs deps_connected (Some p) cur
   \<longleftrightarrow> isConnected p \<noteq> isConnected cur \<or> clear_ref p \<noteq> clear_ref cur"
  by (auto simp: runs_def deps_connected_def)

lemma runs_network_iff:
  "runs deps_network (Some p) cur \<longleftrightarrow> chain p \<noteq> chain cur \<or> clear_ref p \<noteq> clear_ref cur"
  by (auto simp: runs_def deps_network_def)

lemma runs_address_iff:
  "runs deps_address (Some p) cur
   \<longleftrightarrow> address p \<noteq> address cur \<or> identityAddress p \<noteq> identityAddress cur
       \<or> clear_ref p \<noteq> clear_ref cur"
  by (auto simp: runs_def deps_address_def)

lemma runs_mount: "runs deps None cur"
  by (simp add: runs_def)

lemma effect_network_iff:
  "effect_network supported s
   \<longleftrightarrow> chain s = None \<or> (\<exists>c. chain s = Some c \<and> chain_id c \<notin> set supported)"
  by (cases "chain s") (simp_all add: effect_network_def isChainIdSupported_def chain_id_opt_def)

lemma effect_address_iff:
  "effect_address s
   \<longleftrightarrow> (\<exists>a i. address s = Some a \<and> identityAddress s = Some i
              \<and> a \<noteq> [] \<and> i \<noteq> [] \<and> a \<noteq> i)"
  by (cases "address s"; cases "identityAddress s") (auto simp: effect_address_def truthy_def)

text \<open>
  C1, as the source has it. In the effect cycle after the first render, \<open>clear()\<close> is
  called if and only if the wallet is not connected, or the active network id is absent
  or not in the supported set, or \<open>identityAddress\<close> and \<open>address\<close> are both set
  (defined and not empty) and differ. In the cycle after a later render it is called if
  and only if one of these three conditions holds and a dependency of its effect differs
  from the previous render: \<open>isConnected\<close> for the first, \<open>chain\<close> for the second,
  \<open>address\<close> or \<open>identityAddress\<close> for the third, and \<open>clear\<close> for each. So a condition
  that starts to hold clears the session in that very cycle, and no render without one
  of the three conditions causes a clear.
\<close>

theorem AuthGuard_clears_session:
  "(0 < clear_calls supported None cur \<longleftrightarrow>
      \<not> isConnected cur
    \<or> (chain cur = None \<or> (\<exists>c. chain cur = Some c \<and> chain_id c \<notin> set supported))
    \<or> (\<exists>a i. address cur = Some a \<and> identityAddress cur = Some i
              \<and> a \<noteq> [] \<and> i \<noteq> [] \<and> a \<noteq> i))
 \<and> (0 < clear_calls supported (Some p) cur \<longleftrightarrow>
      (\<not> isConnected cur
         \<and> (isConnected p \<noteq> isConnected cur \<or> clear_ref p \<noteq> clear_ref cur))
    \<or> ((chain cur = None \<or> (\<exists>c. chain cur = Some c \<and> chain_id c \<notin> set supported))
         \<and> (chain p \<noteq> chain cur \<or> clear_ref p \<noteq> clear_ref cur))
    \<or> ((\<exists>a i. address cur = Some a \<and> identityAddress cur = Some i
              \<and> a \<noteq> [] \<and> i \<noteq> [] \<and> a \<noteq> i)
         \<and> (address p \<noteq> address cur \<or> identityAddress p \<noteq> identityAddress cur
              \<or> clear_ref p \<noteq> clear_ref cur)))
 \<and> (\<not> isConnected cur \<and> isConnected p \<longrightarrow> 0 < clear_calls supported (Some p) cur)
 \<and> ((chain cur = None \<or> (\<exists>c. chain cur = Some c \<and> chain_id c \<notin> set supported))
      \<and> (\<exists>c. chain p = Some c \<and> chain_id c \<in> set supported)
      \<longrightarrow> 0 < clear_calls supported (Some p) cur)
 \<and> ((\<exists>a i. address cur = Some a \<and> identityAddress cur = Some i
              \<and> a \<noteq> [] \<and> i \<noteq> [] \<and> a \<noteq> i)
      \<and> \<not> (\<exists>a i. address p = Some a \<and> identityAddress p = Some i
              \<and> a \<noteq> [] \<and> i \<noteq> [] \<and> a \<noteq> i)
      \<longrightarrow> 0 < clear_calls supported (Some p) cur)"
proof -
  let ?net = "\<lambda>s :: 'a signals.
      chain s = None \<or> (\<exists>c. chain s = Some c \<and> chain_id c \<notin> set supported)"
  let ?adr = "\<lambda>s :: 'a signals.
      \<exists>a i. address s = Some a \<and> identityAddress s = Some i \<and> a \<noteq> [] \<and> i \<noteq> [] \<and> a \<noteq> i"
  have mount: "0 < clear_calls supported None cur \<longleftrightarrow> \<not> isConnected cur \<or> ?net cur \<or> ?adr cur"
    by (simp add: clear_calls_pos_iff runs_mount effect_connected_def
          effect_network_iff effect_address_iff)
  have later: "0 < clear_calls supported (Some p) cur \<longleftrightarrow>
      (\<not> isConnected cur
         \<and> (isConnected p \<noteq> isConnected cur \<or> clear_ref p \<noteq> clear_ref cur))
    \<or> (?net cur \<and> (chain p \<noteq> chain cur \<or> clear_ref p \<noteq> clear_ref cur))
    \<or> (?adr cur
         \<and> (address p \<noteq> address cur \<or> identityAddress p \<noteq> identityAddress cur
              \<or> clear_ref p \<noteq> clear_ref cur))"
    unfolding clear_calls_pos_iff runs_connected_iff runs_network_iff runs_address_iff
      effect_connected_def effect_network_iff effect_address_iff
    by blast
  have c1: "\<not> isConnected cur \<and> isConnected p \<longrightarrow> 0 < clear_calls supported (Some p) cur"
    unfolding later by blast
  have c2: "?net cur \<and> (\<exists>c. chain p = Some c \<and> chain_id c \<in> set supported)
      \<longrightarrow> 0 < clear_calls supported (Some p) cur"
    unfolding later by auto
  have c3: "?adr cur \<and> \<not> ?adr p \<longrightarrow> 0 < clear_calls supported (Some p) cur"
    unfolding later by auto
  show ?thesis
    by (rule conjI [OF mount conjI [OF later conjI [OF c1 conjI [OF c2 c3]]]])
qed

theorem AuthGuard_clears_session_witness:
  "0 < clear_calls [1]
         None
         \<lparr>isConnected = False, address = Some ''0xB'', chain = None, clear_ref = 0,
          isInitializing = False, identity = Some (7::nat), identityAddress = Some ''0xA''\<rparr>
 \<and> 0 < clear_calls [1]
         (Some \<lparr>isConnected = True, address = Some ''0xA'',
                chain = Some \<lparr>chain_ref = 1, chain_id = 1\<rparr>, clear_ref = 0,
                isInitializing = False, identity = Some (7::nat),
                identityAddress = Some ''0xA''\<rparr>)
         \<lparr>isConnected = False, address = Some ''0xB'', chain = None, clear_ref = 0,
          isInitializing = False, identity = Some (7::nat), identityAddress = Some ''0xA''\<rparr>"
  using AuthGuard_clears_session
          [where supported = "[1]"
             and cur = "\<lparr>isConnected = False, address = Some ''0xB'', chain = None,
                         clear_ref = 0, isInitializing = False, identity = Some (7::nat),
                         identityAddress = Some ''0xA''\<rparr>"
             and p = "\<lparr>isConnected = True, address = Some ''0xA'',
                       chain = Some \<lparr>chain_ref = 1, chain_id = 1\<rparr>, clear_ref = 0,
                       isInitializing = False, identity = Some (7::nat),
                       identityAddress = Some ''0xA''\<rparr>"]
  by simp

text \<open>
  C1 as the spec words it has the session cleared whenever one of the conditions holds.
  A condition that only persists does not clear it again. First: the wallet is
  disconnected in two renders in a row and the identity arrives in the second. Second:
  the wallet stays on a network that is not supported while the user signs in. In both
  no effect calls \<open>clear()\<close>.
\<close>

theorem AuthGuard_persisting_condition_counterexample:
  "clear_calls [1]
     (Some \<lparr>isConnected = False, address = None, chain = None, clear_ref = 0,
            isInitializing = True, identity = (None :: nat option), identityAddress = None\<rparr>)
     \<lparr>isConnected = False, address = None, chain = None, clear_ref = 0,
      isInitializing = False, identity = Some (7::nat), identityAddress = Some ''0xA''\<rparr>
   = 0
 \<and> clear_calls [1]
     (Some \<lparr>isConnected = True, address = Some ''0xA'',
            chain = Some \<lparr>chain_ref = 1, chain_id = 5\<rparr>, clear_ref = 0,
            isInitializing = False, identity = (None :: nat option), identityAddress = None\<rparr>)
     \<lparr>isConnected = True, address = Some ''0xA'',
      chain = Some \<lparr>chain_ref = 1, chain_id = 5\<rparr>, clear_ref = 0,
      isInitializing = False, identity = Some (7::nat), identityAddress = Some ''0xA''\<rparr>
   = 0"
  by (simp add: clear_calls_def runs_def deps_connected_def deps_network_def deps_address_def
        effect_connected_def effect_network_def effect_address_def truthy_def)


section \<open>Numbers: exact below 53 binary digits\<close>

lemma bit_length_le: "n < 2 ^ k \<Longrightarrow> bit_length n \<le> k"
proof (induction k arbitrary: n)
  case 0
  then show ?case by (simp add: bit_length.simps)
next
  case (Suc k)
  show ?case
  proof (cases "n = 0")
    case True
    then show ?thesis by (simp add: bit_length.simps)
  next
    case False
    from Suc.prems have "n div 2 < 2 ^ k" by simp
    then have "bit_length (n div 2) \<le> k" by (rule Suc.IH)
    with False show ?thesis by (simp add: bit_length.simps [of n])
  qed
qed

lemma Number_exact: "\<bar>t\<bar> < 2 ^ 53 \<Longrightarrow> Number t = t"
proof -
  assume "\<bar>t\<bar> < 2 ^ 53"
  then have "nat \<bar>t\<bar> < 2 ^ 53" by (simp add: nat_less_iff)
  then have "bit_length (nat \<bar>t\<bar>) \<le> 53" by (rule bit_length_le)
  then show ?thesis by (simp add: Number_def Let_def)
qed

section \<open>AuthGuard: the render decision\<close>

text \<open>
  C2, as the source has it. While the identity is initializing, the component renders
  its children, whatever the connection and the identity are; once initialization is
  over, it renders the login page if and only if the wallet is not connected or there
  is no identity, and its children otherwise.
\<close>

theorem AuthGuard_render_decision:
  "(isInitializing s \<longrightarrow> AuthGuard s = Children)
 \<and> (\<not> isInitializing s \<longrightarrow>
      (AuthGuard s = LoginPage \<longleftrightarrow> \<not> isConnected s \<or> identity s = None)
    \<and> (AuthGuard s = Children \<longleftrightarrow> isConnected s \<and> identity s \<noteq> None))"
  by (simp add: AuthGuard_def)

theorem AuthGuard_render_decision_witness:
  "AuthGuard \<lparr>isConnected = True, address = Some ''0xA'', chain = None, clear_ref = 0,
              isInitializing = True, identity = Some (7::nat), identityAddress = Some ''0xA''\<rparr>
     = Children
 \<and> AuthGuard \<lparr>isConnected = True, address = Some ''0xA'', chain = None, clear_ref = 0,
              isInitializing = False, identity = (None :: nat option),
              identityAddress = None\<rparr>
     = LoginPage
 \<and> AuthGuard \<lparr>isConnected = True, address = Some ''0xA'', chain = None, clear_ref = 0,
              isInitializing = False, identity = Some (7::nat),
              identityAddress = Some ''0xA''\<rparr>
     = Children"
  using AuthGuard_render_decision
          [of "\<lparr>isConnected = True, address = Some ''0xA'', chain = None, clear_ref = 0,
                isInitializing = True, identity = Some (7::nat),
                identityAddress = Some ''0xA''\<rparr>"]
        AuthGuard_render_decision
          [of "\<lparr>isConnected = True, address = Some ''0xA'', chain = None, clear_ref = 0,
                isInitializing = False, identity = (None :: nat option),
                identityAddress = None\<rparr>"]
        AuthGuard_render_decision
          [of "\<lparr>isConnected = True, address = Some ''0xA'', chain = None, clear_ref = 0,
                isInitializing = False, identity = Some (7::nat),
                identityAddress = Some ''0xA''\<rparr>"]
  by simp

text \<open>
  C2 as the spec words it has the protected content shown only once initialization is
  complete. During initialization, with no wallet connected and no identity, the
  component renders its children all the same.
\<close>

theorem AuthGuard_initializing_counterexample:
  "AuthGuard \<lparr>isConnected = False, address = None, chain = None, clear_ref = 0,
              isInitializing = True, identity = (None :: nat option),
              identityAddress = None\<rparr>
     = Children"
  by (simp add: AuthGuard_def)


section \<open>VideoGrid: facts about the loader\<close>

lemma set_js_insert: "set (js_insert cmp x ys) = insert x (set ys)"
  by (induction ys) auto

lemma set_js_sort: "set (js_sort cmp xs) = set xs"
  by (induction xs) (auto simp: set_js_insert)

lemma mset_js_insert: "mset (js_insert cmp x ys) = add_mset x (mset ys)"
  by (induction ys) auto

lemma mset_js_sort: "mset (js_sort cmp xs) = mset xs"
  by (induction xs) (auto simp: mset_js_insert)

lemma sorted_js_insert:
  "sorted_wrt (\<lambda>a b. Number (timestamp b) \<le> Number (timestamp a)) ys
   \<Longrightarrow> sorted_wrt (\<lambda>a b. Number (timestamp b) \<le> Number (timestamp a))
         (js_insert newest_first x ys)"
  by (induction ys) (auto simp: newest_first_def set_js_insert)

lemma sorted_js_sort:
  "sorted_wrt (\<lambda>a b. Number (timestamp b) \<le> Number (timestamp a)) (js_sort newest_first xs)"
  by (induction xs) (auto simp: sorted_js_insert)

lemma sort_videos_array:
  "sort_videos (JsArray vs) = Inr (js_sort newest_first vs)"
  by (cases vs) (simp_all add: sort_videos_def)

lemma calls_tag:
  "tag = Some t \<Longrightarrow> t \<noteq> [] \<Longrightarrow> t \<noteq> ''all'' \<Longrightarrow> t \<noteq> ''All''
   \<Longrightarrow> snd (query_videos toLowerCase a tag) = [ListVideosByTag (toLowerCase t)]"
  by (simp add: query_videos_def truthy_def split: sum.splits js_list.splits)

lemma calls_search:
  "\<not> (truthy tag \<and> tag \<noteq> Some ''all'' \<and> tag \<noteq> Some ''All'')
   \<Longrightarrow> snd (query_videos toLowerCase a tag) =
         (case search_videos a of None \<Rightarrow> [] | Some search \<Rightarrow> [SearchVideos '''' [] []])"
  by (auto simp: query_videos_def split: option.splits sum.splits)

lemma fetchVideos_calls: "snd (fetchVideos toLowerCase (Some a) tag st) = snd (query_videos toLowerCase a tag)"
  by (simp add: fetchVideos_def)

lemma fetchVideos_prevFetchId:
  "prevFetchId (fst (fetchVideos toLowerCase actor tag st)) = prevFetchId st"
  by (simp add: fetchVideos_def split: option.splits sum.splits)

lemma load_effect_new:
  "nested_actor a \<Longrightarrow> prevFetchId st \<noteq> Some (fetchId a tag)
   \<Longrightarrow> load_effect toLowerCase (Some a) tag st =
         (True, fetchVideos toLowerCase (Some a) tag
                  (st\<lparr>loading := True, error := None, prevFetchId := Some (fetchId a tag)\<rparr>))"
  by (simp add: load_effect_def start_fetch_def settle_fetch_def)

lemma load_effect_same:
  "prevFetchId st = Some (fetchId a tag) \<Longrightarrow> load_effect toLowerCase (Some a) tag st = (False, st, [])"
  by (simp add: load_effect_def start_fetch_def settle_fetch_def)

lemma load_effect_key:
  "nested_actor a \<Longrightarrow> prevFetchId (fst (snd (load_effect toLowerCase (Some a) tag st))) = Some (fetchId a tag)"
  by (simp add: load_effect_def start_fetch_def settle_fetch_def fetchVideos_prevFetchId)

lemma query_tag_rejected:
  "tag = Some t \<Longrightarrow> t \<noteq> [] \<Longrightarrow> t \<noteq> ''all'' \<Longrightarrow> t \<noteq> ''All''
   \<Longrightarrow> list_videos_by_tag a (toLowerCase t) = Inl e
   \<Longrightarrow> fst (query_videos toLowerCase a tag) = JsArray []"
  by (simp add: query_videos_def truthy_def)

lemma query_tag_resolved:
  "tag = Some t \<Longrightarrow> t \<noteq> [] \<Longrightarrow> t \<noteq> ''all'' \<Longrightarrow> t \<noteq> ''All''
   \<Longrightarrow> list_videos_by_tag a (toLowerCase t) = Inr (JsArray vs)
   \<Longrightarrow> fst (query_videos toLowerCase a tag) = JsArray vs"
  by (simp add: query_videos_def truthy_def)

lemma query_tag_is_array:
  "truthy tag \<and> tag \<noteq> Some ''all'' \<and> tag \<noteq> Some ''All''
   \<Longrightarrow> \<exists>vs. fst (query_videos toLowerCase a tag) = JsArray vs"
  by (auto simp: query_videos_def split: option.splits sum.splits js_list.splits)

lemma query_search_absent:
  "\<not> (truthy tag \<and> tag \<noteq> Some ''all'' \<and> tag \<noteq> Some ''All'') \<Longrightarrow> search_videos a = None
   \<Longrightarrow> fst (query_videos toLowerCase a tag) = JsArray []"
  by (auto simp: query_videos_def)

lemma query_search_rejected:
  "\<not> (truthy tag \<and> tag \<noteq> Some ''all'' \<and> tag \<noteq> Some ''All'')
   \<Longrightarrow> search_videos a = Some search \<Longrightarrow> search '''' [] [] = Inl e
   \<Longrightarrow> fst (query_videos toLowerCase a tag) = JsArray []"
  by (auto simp: query_videos_def)

lemma query_search_resolved:
  "\<not> (truthy tag \<and> tag \<noteq> Some ''all'' \<and> tag \<noteq> Some ''All'')
   \<Longrightarrow> search_videos a = Some search \<Longrightarrow> search '''' [] [] = Inr v
   \<Longrightarrow> fst (query_videos toLowerCase a tag) = v"
  by (auto simp: query_videos_def)

lemma fetchVideos_array:
  "fst (query_videos toLowerCase a tag) = JsArray vs
   \<Longrightarrow> fst (fetchVideos toLowerCase (Some a) tag st) = st\<lparr>videos := js_sort newest_first vs, loading := False\<rparr>"
  by (simp add: fetchVideos_def try_block_def sort_videos_array)

lemma fetchVideos_thrown:
  "try_block toLowerCase a tag = Inl e
   \<Longrightarrow> fst (fetchVideos toLowerCase (Some a) tag st) =
         st\<lparr>error := Some (''Failed to load videos: '' @ exn_text e), videos := [],
            loading := False\<rparr>"
  by (simp add: fetchVideos_def)

lemma fetchVideos_returned:
  "try_block toLowerCase a tag = Inr vs
   \<Longrightarrow> fst (fetchVideos toLowerCase (Some a) tag st) = st\<lparr>videos := vs, loading := False\<rparr>"
  by (simp add: fetchVideos_def)

lemma try_block_thrown_iff:
  "(\<exists>e. try_block toLowerCase a tag = Inl e) \<longleftrightarrow>
   fst (query_videos toLowerCase a tag) = JsNull \<or> fst (query_videos toLowerCase a tag) = JsUndefined"
  by (cases "fst (query_videos toLowerCase a tag)") (auto simp: try_block_def sort_videos_def)

section \<open>VideoGrid: which query the loader calls\<close>

text \<open>
  C3, as the source has it. A tag that is present (defined and not empty) and is neither
  \<open>all\<close> nor \<open>All\<close> makes the loader call the tag query once, with the tag in lower case,
  and nothing else. Any other tag (absent, empty, \<open>all\<close>, \<open>All\<close>) never reaches the tag
  query: the loader calls the search query once with an empty query and two empty
  filters if the client has a search function, and calls nothing if it has none. The
  effect makes exactly these calls when the key of the fetch differs from the previous
  one, makes none when the key is the same, and a second run of the effect on the state
  it left makes none. This holds for every tag, with \<open>toLowerCase\<close> the function of
  the language; the tag \<open>Comedy\<close>, which is ASCII, is sent as \<open>comedy\<close>.
\<close>

theorem loader_query_choice:
  "(tag = Some t \<and> t \<noteq> [] \<and> t \<noteq> ''all'' \<and> t \<noteq> ''All''
      \<longrightarrow> snd (fetchVideos toLowerCase (Some a) tag st) = [ListVideosByTag (toLowerCase t)])
 \<and> (tag = None \<or> tag = Some [] \<or> tag = Some ''all'' \<or> tag = Some ''All''
      \<longrightarrow> snd (fetchVideos toLowerCase (Some a) tag st) =
            (case search_videos a of None \<Rightarrow> [] | Some search \<Rightarrow> [SearchVideos '''' [] []]))
 \<and> (nested_actor a \<and> prevFetchId st \<noteq> Some (fetchId a tag)
      \<longrightarrow> fst (load_effect toLowerCase (Some a) tag st)
        \<and> snd (snd (load_effect toLowerCase (Some a) tag st))
            = snd (fetchVideos toLowerCase (Some a) tag st))
 \<and> (prevFetchId st = Some (fetchId a tag)
      \<longrightarrow> load_effect toLowerCase (Some a) tag st = (False, st, []))
 \<and> (nested_actor a
      \<longrightarrow> load_effect toLowerCase (Some a) tag (fst (snd (load_effect toLowerCase (Some a) tag st)))
            = (False, fst (snd (load_effect toLowerCase (Some a) tag st)), []))
 \<and> snd (fetchVideos ascii_toLowerCase (Some a) (Some ''Comedy'') st)
      = [ListVideosByTag ''comedy'']"
proof -
  have tagged: "tag = Some t \<and> t \<noteq> [] \<and> t \<noteq> ''all'' \<and> t \<noteq> ''All''
      \<longrightarrow> snd (fetchVideos toLowerCase (Some a) tag st) = [ListVideosByTag (toLowerCase t)]"
    by (simp add: fetchVideos_calls calls_tag)
  have other: "tag = None \<or> tag = Some [] \<or> tag = Some ''all'' \<or> tag = Some ''All''
      \<longrightarrow> snd (fetchVideos toLowerCase (Some a) tag st) =
            (case search_videos a of None \<Rightarrow> [] | Some search \<Rightarrow> [SearchVideos '''' [] []])"
    by (auto simp: fetchVideos_calls truthy_def intro!: calls_search)
  have new: "nested_actor a \<and> prevFetchId st \<noteq> Some (fetchId a tag)
      \<longrightarrow> fst (load_effect toLowerCase (Some a) tag st)
        \<and> snd (snd (load_effect toLowerCase (Some a) tag st))
            = snd (fetchVideos toLowerCase (Some a) tag st)"
    by (simp add: load_effect_new fetchVideos_calls)
  have same: "prevFetchId st = Some (fetchId a tag)
      \<longrightarrow> load_effect toLowerCase (Some a) tag st = (False, st, [])"
    by (simp add: load_effect_same)
  have again: "nested_actor a
      \<longrightarrow> load_effect toLowerCase (Some a) tag (fst (snd (load_effect toLowerCase (Some a) tag st)))
            = (False, fst (snd (load_effect toLowerCase (Some a) tag st)), [])"
    by (simp add: load_effect_same load_effect_key)
  have comedy: "snd (fetchVideos ascii_toLowerCase (Some a) (Some ''Comedy'') st)
      = [ListVideosByTag ''comedy'']"
    by (simp add: fetchVideos_calls calls_tag ascii_toLowerCase_def lower_char_def)
  from tagged other new same again comedy show ?thesis by blast
qed

theorem loader_query_choice_witness:
  "snd (fetchVideos ascii_toLowerCase
          (Some \<lparr>nested_actor = True, list_videos_by_tag = (\<lambda>t. Inr (JsArray [])),
                 search_videos = Some (\<lambda>q f g. Inr (JsArray []))\<rparr>)
          (Some ''Comedy'') initial_state)
     = [ListVideosByTag ''comedy'']
 \<and> snd (fetchVideos ascii_toLowerCase
          (Some \<lparr>nested_actor = True, list_videos_by_tag = (\<lambda>t. Inr (JsArray [])),
                 search_videos = Some (\<lambda>q f g. Inr (JsArray []))\<rparr>)
          (Some ''All'') initial_state)
     = [SearchVideos '''' [] []]
 \<and> snd (snd (load_effect ascii_toLowerCase
          (Some \<lparr>nested_actor = True, list_videos_by_tag = (\<lambda>t. Inr (JsArray [])),
                 search_videos = Some (\<lambda>q f g. Inr (JsArray []))\<rparr>)
          (Some ''Comedy'') initial_state))
     = [ListVideosByTag ''comedy'']
 \<and> load_effect ascii_toLowerCase
          (Some \<lparr>nested_actor = True, list_videos_by_tag = (\<lambda>t. Inr (JsArray [])),
                 search_videos = Some (\<lambda>q f g. Inr (JsArray []))\<rparr>)
          (Some ''Comedy'')
          \<lparr>videos = [], loading = False, error = None,
           prevFetchId = Some ''has-nested-actor-Comedy''\<rparr>
     = (False,
        \<lparr>videos = [], loading = False, error = None,
         prevFetchId = Some ''has-nested-actor-Comedy''\<rparr>, [])"
  using loader_query_choice
          [where toLowerCase = ascii_toLowerCase
             and tag = "Some ''Comedy''" and t = "''Comedy''" and st = initial_state
             and a = "\<lparr>nested_actor = True, list_videos_by_tag = (\<lambda>t. Inr (JsArray [])),
                       search_videos = Some (\<lambda>q f g. Inr (JsArray []))\<rparr>"]
        loader_query_choice
          [where toLowerCase = ascii_toLowerCase
             and tag = "Some ''All''" and t = "''All''" and st = initial_state
             and a = "\<lparr>nested_actor = True, list_videos_by_tag = (\<lambda>t. Inr (JsArray [])),
                       search_videos = Some (\<lambda>q f g. Inr (JsArray []))\<rparr>"]
        loader_query_choice
          [where toLowerCase = ascii_toLowerCase
             and tag = "Some ''Comedy''" and t = "''Comedy''"
             and st = "\<lparr>videos = [], loading = False, error = None,
                        prevFetchId = Some ''has-nested-actor-Comedy''\<rparr>"
             and a = "\<lparr>nested_actor = True, list_videos_by_tag = (\<lambda>t. Inr (JsArray [])),
                       search_videos = Some (\<lambda>q f g. Inr (JsArray []))\<rparr>"]
  by (simp add: initial_state_def fetchId_def or_else_def ascii_toLowerCase_def lower_char_def)

text \<open>
  C3 as the spec words it has the search query called for every tag that is absent or
  \<open>all\<close> or \<open>All\<close>. With no tag and a client that has no search function, the loader
  makes no call at all.
\<close>

theorem loader_search_absent_counterexample:
  "snd (fetchVideos ascii_toLowerCase
          (Some \<lparr>nested_actor = True, list_videos_by_tag = (\<lambda>t. Inr (JsArray [])),
                 search_videos = None\<rparr>)
          None initial_state)
     = []"
  by (simp add: fetchVideos_def query_videos_def truthy_def)

section \<open>VideoGrid: the two tiers of error handling\<close>

text \<open>
  C4. Take an effect run that fetches (the client is ready and the key is new), and the
  state it leaves. If the tag query is the one called and it fails, or the search
  query is the one called and it fails, or the client has no search function, the state
  is the empty collection, not loading, with no error: the "empty" panel. An error is
  left in the state exactly when an exception leaves the body of the outer \<open>try\<close>, that
  is when no inner handler caught it; exactly then the "error" panel is rendered, and
  then neither query has failed.
\<close>

theorem two_tier_error_policy:
  assumes ready: "nested_actor a" and new: "prevFetchId st \<noteq> Some (fetchId a tag)"
  shows
  "(tag = Some t \<and> t \<noteq> [] \<and> t \<noteq> ''all'' \<and> t \<noteq> ''All''
      \<and> list_videos_by_tag a (toLowerCase t) = Inl e
      \<longrightarrow> fst (snd (load_effect toLowerCase (Some a) tag st))
            = \<lparr>videos = [], loading = False, error = None,
               prevFetchId = Some (fetchId a tag)\<rparr>
        \<and> renderBranch (fst (snd (load_effect toLowerCase (Some a) tag st))) = ''empty'')
 \<and> ((tag = None \<or> tag = Some [] \<or> tag = Some ''all'' \<or> tag = Some ''All'')
      \<and> (search_videos a = None
          \<or> (\<exists>search. search_videos a = Some search \<and> search '''' [] [] = Inl e))
      \<longrightarrow> fst (snd (load_effect toLowerCase (Some a) tag st))
            = \<lparr>videos = [], loading = False, error = None,
               prevFetchId = Some (fetchId a tag)\<rparr>
        \<and> renderBranch (fst (snd (load_effect toLowerCase (Some a) tag st))) = ''empty'')
 \<and> (error (fst (snd (load_effect toLowerCase (Some a) tag st))) \<noteq> None
      \<longleftrightarrow> (\<exists>x. try_block toLowerCase a tag = Inl x))
 \<and> (renderBranch (fst (snd (load_effect toLowerCase (Some a) tag st))) = ''error''
      \<longleftrightarrow> (\<exists>x. try_block toLowerCase a tag = Inl x))
 \<and> ((\<exists>x. try_block toLowerCase a tag = Inl x)
      \<longrightarrow> (tag = None \<or> tag = Some [] \<or> tag = Some ''all'' \<or> tag = Some ''All'')
        \<and> (\<exists>search. search_videos a = Some search
              \<and> (search '''' [] [] = Inr JsNull \<or> search '''' [] [] = Inr JsUndefined)))"
proof -
  let ?st1 = "st\<lparr>loading := True, error := None, prevFetchId := Some (fetchId a tag)\<rparr>"
  let ?st' = "fst (snd (load_effect toLowerCase (Some a) tag st))"
  let ?empty = "?st' = \<lparr>videos = [], loading = False, error = None,
                         prevFetchId = Some (fetchId a tag)\<rparr>
              \<and> renderBranch ?st' = ''empty''"
  have st': "?st' = fst (fetchVideos toLowerCase (Some a) tag ?st1)"
    using ready new by (simp add: load_effect_new)
  have empty: ?empty if "fst (query_videos toLowerCase a tag) = JsArray []"
    using that by (simp add: st' fetchVideos_array renderBranch_def truthy_def)
  have tier1a: "tag = Some t \<and> t \<noteq> [] \<and> t \<noteq> ''all'' \<and> t \<noteq> ''All''
      \<and> list_videos_by_tag a (toLowerCase t) = Inl e \<longrightarrow> ?empty"
  proof (intro impI, elim conjE)
    assume "tag = Some t" "t \<noteq> []" "t \<noteq> ''all''" "t \<noteq> ''All''"
      "list_videos_by_tag a (toLowerCase t) = Inl e"
    then have "fst (query_videos toLowerCase a tag) = JsArray []" by (rule query_tag_rejected)
    then show ?empty by (rule empty)
  qed
  have sentinel: "\<not> (truthy tag \<and> tag \<noteq> Some ''all'' \<and> tag \<noteq> Some ''All'')"
    if "tag = None \<or> tag = Some [] \<or> tag = Some ''all'' \<or> tag = Some ''All''"
    using that by (auto simp: truthy_def)
  have tier1b: "(tag = None \<or> tag = Some [] \<or> tag = Some ''all'' \<or> tag = Some ''All'')
      \<and> (search_videos a = None
          \<or> (\<exists>search. search_videos a = Some search \<and> search '''' [] [] = Inl e))
      \<longrightarrow> ?empty"
  proof (intro impI, elim conjE)
    assume tags: "tag = None \<or> tag = Some [] \<or> tag = Some ''all'' \<or> tag = Some ''All''"
      and failed: "search_videos a = None
          \<or> (\<exists>search. search_videos a = Some search \<and> search '''' [] [] = Inl e)"
    have nofilter: "\<not> (truthy tag \<and> tag \<noteq> Some ''all'' \<and> tag \<noteq> Some ''All'')"
      using tags by (rule sentinel)
    from failed have "fst (query_videos toLowerCase a tag) = JsArray []"
    proof
      assume "search_videos a = None"
      with nofilter show ?thesis by (rule query_search_absent)
    next
      assume "\<exists>search. search_videos a = Some search \<and> search '''' [] [] = Inl e"
      then obtain search where "search_videos a = Some search" and "search '''' [] [] = Inl e"
        by blast
      with nofilter show ?thesis by (rule query_search_rejected)
    qed
    then show ?empty by (rule empty)
  qed
  have err: "error ?st' \<noteq> None \<longleftrightarrow> (\<exists>x. try_block toLowerCase a tag = Inl x)"
    by (cases "try_block toLowerCase a tag") (simp_all add: st' fetchVideos_thrown fetchVideos_returned)
  have panel: "renderBranch ?st' = ''error'' \<longleftrightarrow> (\<exists>x. try_block toLowerCase a tag = Inl x)"
    by (cases "try_block toLowerCase a tag")
       (simp_all add: st' fetchVideos_thrown fetchVideos_returned renderBranch_def truthy_def)
  have cause: "(\<exists>x. try_block toLowerCase a tag = Inl x)
      \<longrightarrow> (tag = None \<or> tag = Some [] \<or> tag = Some ''all'' \<or> tag = Some ''All'')
        \<and> (\<exists>search. search_videos a = Some search
              \<and> (search '''' [] [] = Inr JsNull \<or> search '''' [] [] = Inr JsUndefined))"
  proof
    assume "\<exists>x. try_block toLowerCase a tag = Inl x"
    then have bad: "fst (query_videos toLowerCase a tag) = JsNull \<or> fst (query_videos toLowerCase a tag) = JsUndefined"
      by (simp add: try_block_thrown_iff)
    have nofilter: "\<not> (truthy tag \<and> tag \<noteq> Some ''all'' \<and> tag \<noteq> Some ''All'')"
    proof
      assume "truthy tag \<and> tag \<noteq> Some ''all'' \<and> tag \<noteq> Some ''All''"
      then obtain vs where "fst (query_videos toLowerCase a tag) = JsArray vs"
        using query_tag_is_array by blast
      with bad show False by simp
    qed
    then have tags: "tag = None \<or> tag = Some [] \<or> tag = Some ''all'' \<or> tag = Some ''All''"
      by (cases tag) (auto simp: truthy_def)
    have "\<exists>search. search_videos a = Some search
              \<and> (search '''' [] [] = Inr JsNull \<or> search '''' [] [] = Inr JsUndefined)"
    proof (cases "search_videos a")
      case None
      with nofilter bad show ?thesis by (simp add: query_search_absent)
    next
      case (Some search)
      show ?thesis
      proof (cases "search '''' [] []")
        case (Inl x)
        with nofilter Some bad show ?thesis by (simp add: query_search_rejected)
      next
        case (Inr v)
        with nofilter Some have "fst (query_videos toLowerCase a tag) = v" by (rule query_search_resolved)
        with bad Some Inr show ?thesis by auto
      qed
    qed
    with tags show "(tag = None \<or> tag = Some [] \<or> tag = Some ''all'' \<or> tag = Some ''All'')
        \<and> (\<exists>search. search_videos a = Some search
              \<and> (search '''' [] [] = Inr JsNull \<or> search '''' [] [] = Inr JsUndefined))"
      by (rule conjI)
  qed
  show ?thesis
    by (rule conjI [OF tier1a conjI [OF tier1b conjI [OF err conjI [OF panel cause]]]])
qed

theorem two_tier_error_policy_witness:
  "fst (snd (load_effect ascii_toLowerCase
        (Some \<lparr>nested_actor = True, list_videos_by_tag = (\<lambda>t. Inl (JsError ''boom'')),
               search_videos = None\<rparr>)
        (Some ''Comedy'') initial_state))
     = \<lparr>videos = [], loading = False, error = None,
        prevFetchId = Some ''has-nested-actor-Comedy''\<rparr>
 \<and> renderBranch (fst (snd (load_effect ascii_toLowerCase
        (Some \<lparr>nested_actor = True, list_videos_by_tag = (\<lambda>t. Inl (JsError ''boom'')),
               search_videos = None\<rparr>)
        None initial_state)))
     = ''empty''
 \<and> renderBranch (fst (snd (load_effect ascii_toLowerCase
        (Some \<lparr>nested_actor = True, list_videos_by_tag = (\<lambda>t. Inr (JsArray [])),
               search_videos = Some (\<lambda>q f g. Inl (JsThrown ''rejected''))\<rparr>)
        (Some ''all'') initial_state)))
     = ''empty''
 \<and> renderBranch (fst (snd (load_effect ascii_toLowerCase
        (Some \<lparr>nested_actor = True, list_videos_by_tag = (\<lambda>t. Inr (JsArray [])),
               search_videos = Some (\<lambda>q f g. Inr JsNull)\<rparr>)
        None initial_state)))
     = ''error''"
  using two_tier_error_policy
          [where toLowerCase = ascii_toLowerCase
             and a = "\<lparr>nested_actor = True, list_videos_by_tag = (\<lambda>t. Inl (JsError ''boom'')),
                       search_videos = None\<rparr>"
             and st = initial_state and tag = "Some ''Comedy''" and t = "''Comedy''"
             and e = "JsError ''boom''"]
        two_tier_error_policy
          [where toLowerCase = ascii_toLowerCase
             and a = "\<lparr>nested_actor = True, list_videos_by_tag = (\<lambda>t. Inl (JsError ''boom'')),
                       search_videos = None\<rparr>"
             and st = initial_state and tag = None and t = "''Comedy''"
             and e = "JsError ''boom''"]
        two_tier_error_policy
          [where toLowerCase = ascii_toLowerCase
             and a = "\<lparr>nested_actor = True, list_videos_by_tag = (\<lambda>t. Inr (JsArray [])),
                       search_videos = Some (\<lambda>q f g. Inl (JsThrown ''rejected''))\<rparr>"
             and st = initial_state and tag = "Some ''all''" and t = "''all''"
             and e = "JsThrown ''rejected''"]
        two_tier_error_policy
          [where toLowerCase = ascii_toLowerCase
             and a = "\<lparr>nested_actor = True, list_videos_by_tag = (\<lambda>t. Inr (JsArray [])),
                       search_videos = Some (\<lambda>q f g. Inr JsNull)\<rparr>"
             and st = initial_state and tag = None and t = "''all''"
             and e = "JsThrown ''rejected''"]
  by (simp add: initial_state_def fetchId_def or_else_def try_block_def query_videos_def
        sort_videos_def truthy_def load_effect_def start_fetch_def settle_fetch_def fetchVideos_def renderBranch_def
        ascii_toLowerCase_def lower_char_def cannot_read_length_def)

section \<open>VideoGrid: the order of the loaded videos\<close>

lemma Number_5_20_1: "Number 5 = 5" "Number 20 = 20" "Number 1 = 1"
  by (simp_all add: Number_def bit_length.simps)

lemma js_sort_5_20_1:
  assumes "map timestamp vs = [5, 20, 1]"
  shows "map timestamp (js_sort newest_first vs) = [20, 5, 1]"
proof -
  from assms obtain x y z where vs: "vs = [x, y, z]"
    and ts: "timestamp x = 5" "timestamp y = 20" "timestamp z = 1"
    by auto
  show ?thesis
    by (simp add: vs ts newest_first_def Number_5_20_1)
qed

text \<open>
  C5. When the query the loader calls resolves to an array, the collection it stores
  holds the same videos, each as often as the array did, and in it the timestamps
  coerced by \<open>Number\<close> never increase from one video to the next; where every
  timestamp is below \<open>2^53\<close> in absolute value the coercion is exact, and the
  timestamps themselves never increase. Timestamps 5, 20, 1 come out in the order
  20, 5, 1.
\<close>

theorem loader_sorts_newest_first:
  assumes "(tag = Some t \<and> t \<noteq> [] \<and> t \<noteq> ''all'' \<and> t \<noteq> ''All''
              \<and> list_videos_by_tag a (toLowerCase t) = Inr (JsArray vs))
         \<or> ((tag = None \<or> tag = Some [] \<or> tag = Some ''all'' \<or> tag = Some ''All'')
              \<and> search_videos a = Some search \<and> search '''' [] [] = Inr (JsArray vs))"
  shows "mset (videos (fst (fetchVideos toLowerCase (Some a) tag st))) = mset vs
       \<and> sorted_wrt (\<lambda>x y. Number (timestamp y) \<le> Number (timestamp x))
           (videos (fst (fetchVideos toLowerCase (Some a) tag st)))
       \<and> ((\<forall>v \<in> set vs. \<bar>timestamp v\<bar> < 2 ^ 53)
            \<longrightarrow> sorted_wrt (\<lambda>x y. timestamp y \<le> timestamp x)
                  (videos (fst (fetchVideos toLowerCase (Some a) tag st))))
       \<and> (map timestamp vs = [5, 20, 1]
            \<longrightarrow> map timestamp (videos (fst (fetchVideos toLowerCase (Some a) tag st))) = [20, 5, 1])
       \<and> error (fst (fetchVideos toLowerCase (Some a) tag st)) = error st
       \<and> \<not> loading (fst (fetchVideos toLowerCase (Some a) tag st))"
proof -
  from assms have "fst (query_videos toLowerCase a tag) = JsArray vs"
  proof
    assume "tag = Some t \<and> t \<noteq> [] \<and> t \<noteq> ''all'' \<and> t \<noteq> ''All''
              \<and> list_videos_by_tag a (toLowerCase t) = Inr (JsArray vs)"
    then show ?thesis by (simp add: query_tag_resolved)
  next
    assume search: "(tag = None \<or> tag = Some [] \<or> tag = Some ''all'' \<or> tag = Some ''All'')
              \<and> search_videos a = Some search \<and> search '''' [] [] = Inr (JsArray vs)"
    then have "\<not> (truthy tag \<and> tag \<noteq> Some ''all'' \<and> tag \<noteq> Some ''All'')"
      by (auto simp: truthy_def)
    with search show ?thesis by (simp add: query_search_resolved)
  qed
  then have out: "fst (fetchVideos toLowerCase (Some a) tag st)
      = st\<lparr>videos := js_sort newest_first vs, loading := False\<rparr>"
    by (rule fetchVideos_array)
  have exact: "sorted_wrt (\<lambda>x y. timestamp y \<le> timestamp x) (js_sort newest_first vs)"
    if small: "\<forall>v \<in> set vs. \<bar>timestamp v\<bar> < 2 ^ 53"
  proof (rule sorted_wrt_mono_rel [OF _ sorted_js_sort])
    fix x y
    assume "x \<in> set (js_sort newest_first vs)" "y \<in> set (js_sort newest_first vs)"
    then have "x \<in> set vs" "y \<in> set vs"
      by (simp_all add: set_js_sort)
    with small have "Number (timestamp x) = timestamp x" "Number (timestamp y) = timestamp y"
      by (simp_all add: Number_exact)
    moreover assume "Number (timestamp y) \<le> Number (timestamp x)"
    ultimately show "timestamp y \<le> timestamp x" by simp
  qed
  show ?thesis
    using exact by (simp add: out mset_js_sort sorted_js_sort js_sort_5_20_1)
qed

theorem loader_sorts_newest_first_witness:
  "map timestamp (videos (fst (fetchVideos ascii_toLowerCase
      (Some \<lparr>nested_actor = True, list_videos_by_tag = (\<lambda>t. Inr (JsArray [])),
             search_videos = Some (\<lambda>q f g. Inr (JsArray
               [\<lparr>video_id = Some ''a'', title = ''A'', uploader_principal = ''p'',
                 timestamp = 5, storage_ref = NoRef\<rparr>,
                \<lparr>video_id = Some ''b'', title = ''B'', uploader_principal = ''p'',
                 timestamp = 20, storage_ref = NoRef\<rparr>,
                \<lparr>video_id = Some ''c'', title = ''C'', uploader_principal = ''p'',
                 timestamp = 1, storage_ref = NoRef\<rparr>]))\<rparr>)
      None initial_state)))
   = [20, 5, 1]"
  using loader_sorts_newest_first
          [where toLowerCase = ascii_toLowerCase and tag = None and t = "''x''"
             and a = "\<lparr>nested_actor = True, list_videos_by_tag = (\<lambda>t. Inr (JsArray [])),
                       search_videos = Some (\<lambda>q f g. Inr (JsArray
                         [\<lparr>video_id = Some ''a'', title = ''A'', uploader_principal = ''p'',
                           timestamp = 5, storage_ref = NoRef\<rparr>,
                          \<lparr>video_id = Some ''b'', title = ''B'', uploader_principal = ''p'',
                           timestamp = 20, storage_ref = NoRef\<rparr>,
                          \<lparr>video_id = Some ''c'', title = ''C'', uploader_principal = ''p'',
                           timestamp = 1, storage_ref = NoRef\<rparr>]))\<rparr>"
             and search = "\<lambda>q f g. Inr (JsArray
                         [\<lparr>video_id = Some ''a'', title = ''A'', uploader_principal = ''p'',
                           timestamp = 5, storage_ref = NoRef\<rparr>,
                          \<lparr>video_id = Some ''b'', title = ''B'', uploader_principal = ''p'',
                           timestamp = 20, storage_ref = NoRef\<rparr>,
                          \<lparr>video_id = Some ''c'', title = ''C'', uploader_principal = ''p'',
                           timestamp = 1, storage_ref = NoRef\<rparr>])"
             and vs = "[\<lparr>video_id = Some ''a'', title = ''A'', uploader_principal = ''p'',
                           timestamp = 5, storage_ref = NoRef\<rparr>,
                          \<lparr>video_id = Some ''b'', title = ''B'', uploader_principal = ''p'',
                           timestamp = 20, storage_ref = NoRef\<rparr>,
                          \<lparr>video_id = Some ''c'', title = ''C'', uploader_principal = ''p'',
                           timestamp = 1, storage_ref = NoRef\<rparr>]"
             and st = initial_state]
  by simp


section \<open>VideoGrid: no backend client\<close>

text \<open>
  C6, as the source has it. Without a client no backend call is made. The loader only
  sets \<open>loading\<close> to false and keeps the collection and the error it had: the "empty"
  panel when it starts from an empty collection and no error. The effect does not call
  the loader at all, neither without a client nor with one that has no \<open>actor\<close>, and
  leaves the state as it is.
\<close>

theorem loader_without_client:
  "fetchVideos toLowerCase None tag st = (st\<lparr>loading := False\<rparr>, [])
 \<and> (videos st = [] \<and> error st = None
      \<longrightarrow> renderBranch (fst (fetchVideos toLowerCase None tag st)) = ''empty'')
 \<and> load_effect toLowerCase None tag st = (False, st, [])
 \<and> (\<not> nested_actor a \<longrightarrow> load_effect toLowerCase (Some a) tag st = (False, st, []))"
  by (simp add: fetchVideos_def load_effect_def start_fetch_def settle_fetch_def renderBranch_def truthy_def)

theorem loader_without_client_witness:
  "renderBranch (fst (fetchVideos ascii_toLowerCase None (Some ''Comedy'') initial_state)) = ''empty''
 \<and> load_effect ascii_toLowerCase
      (Some \<lparr>nested_actor = False, list_videos_by_tag = (\<lambda>t. Inr (JsArray [])),
             search_videos = None\<rparr>)
      (Some ''Comedy'') initial_state
     = (False, initial_state, [])"
  using loader_without_client
          [where toLowerCase = ascii_toLowerCase and tag = "Some ''Comedy''" and st = initial_state
             and a = "\<lparr>nested_actor = False, list_videos_by_tag = (\<lambda>t. Inr (JsArray [])),
                       search_videos = None\<rparr>"]
  by (simp add: initial_state_def fetchVideos_def load_effect_def start_fetch_def settle_fetch_def renderBranch_def truthy_def)

text \<open>
  C6 as the spec words it has every invocation without a client end in the loaded, empty
  collection. Invoked on a state that holds a video, the loader leaves the "videos"
  panel with that video; and on the first render without a client the effect does not
  fetch, so the component stays in the "loading" panel.
\<close>

theorem loader_without_client_counterexample:
  "renderBranch (fst (fetchVideos ascii_toLowerCase None None
      \<lparr>videos = [\<lparr>video_id = Some ''a'', title = ''A'', uploader_principal = ''p'',
                  timestamp = 5, storage_ref = NoRef\<rparr>],
       loading = True, error = None, prevFetchId = Some ''has-nested-actor-all''\<rparr>))
     = ''videos''
 \<and> renderBranch (fst (snd (load_effect ascii_toLowerCase None None initial_state))) = ''loading''"
  by (simp add: fetchVideos_def load_effect_def start_fetch_def settle_fetch_def renderBranch_def truthy_def initial_state_def)

section \<open>VideoGrid: the thumbnail of a video\<close>

text \<open>
  C7. A video id that is present (defined and not empty) gives the playback thumbnail
  of that id, whatever the storage reference is. Without it, a storage reference that
  begins with \<open>ipfs:\<close> (the string itself, or the first element of an array) gives the
  gateway address built on the rest of the reference, with the configured domain, or
  the default domain where none is configured (the variable is undefined or empty). In
  every other case the result is the static image.
\<close>

theorem thumbnail_priority:
  "(video_id v = Some vid \<and> vid \<noteq> []
      \<longrightarrow> getVideoThumbnail env v
            = ''https://vod-cdn.lp-playback.studio/hls/'' @ vid @ ''/thumbnails/keyframes_0.jpg'')
 \<and> ((video_id v = None \<or> video_id v = Some [])
      \<and> (storage_ref v = RefString r \<or> storage_ref v = RefArray (r # rest))
      \<and> take 5 r = ''ipfs:''
      \<longrightarrow> getVideoThumbnail env v
            = ''https://''
              @ (case env of
                   None \<Rightarrow> ''salmon-worthy-hawk-798.mypinata.cloud''
                 | Some domain \<Rightarrow>
                     if domain = [] then ''salmon-worthy-hawk-798.mypinata.cloud'' else domain)
              @ ''/ipfs/'' @ drop 5 r @ ''/thumbnail.jpg'')
 \<and> ((video_id v = None \<or> video_id v = Some [])
      \<and> \<not> (\<exists>s more. (storage_ref v = RefString s \<or> storage_ref v = RefArray (s # more))
                    \<and> take 5 s = ''ipfs:'')
      \<longrightarrow> getVideoThumbnail env v = ''/header.png'')"
proof -
  have playback: "video_id v = Some vid \<and> vid \<noteq> []
      \<longrightarrow> getVideoThumbnail env v
            = ''https://vod-cdn.lp-playback.studio/hls/'' @ vid @ ''/thumbnails/keyframes_0.jpg''"
    by (simp add: getVideoThumbnail_def playback_thumbnail_def)
  have rest: "getVideoThumbnail env v = storage_thumbnail env v"
    if "video_id v = None \<or> video_id v = Some []"
    using that by (auto simp: getVideoThumbnail_def)
  have nonempty: "s \<noteq> []" if "take 5 s = ''ipfs:''" for s :: string
    using that by auto
  have ipfs: "(video_id v = None \<or> video_id v = Some [])
      \<and> (storage_ref v = RefString r \<or> storage_ref v = RefArray (r # rest))
      \<and> take 5 r = ''ipfs:''
      \<longrightarrow> getVideoThumbnail env v
            = ''https://''
              @ (case env of
                   None \<Rightarrow> ''salmon-worthy-hawk-798.mypinata.cloud''
                 | Some domain \<Rightarrow>
                     if domain = [] then ''salmon-worthy-hawk-798.mypinata.cloud'' else domain)
              @ ''/ipfs/'' @ drop 5 r @ ''/thumbnail.jpg''"
    using nonempty [of r]
    by (auto simp: rest storage_thumbnail_def ref_truthy_def resolve_storage_ref_def
          ipfs_thumbnail_def or_else_def default_gateway_def split: option.splits)
  have fallback: "(video_id v = None \<or> video_id v = Some [])
      \<and> \<not> (\<exists>s more. (storage_ref v = RefString s \<or> storage_ref v = RefArray (s # more))
                    \<and> take 5 s = ''ipfs:'')
      \<longrightarrow> getVideoThumbnail env v = ''/header.png''"
  proof (intro impI, elim conjE)
    assume novid: "video_id v = None \<or> video_id v = Some []"
      and noipfs: "\<not> (\<exists>s more. (storage_ref v = RefString s \<or> storage_ref v = RefArray (s # more))
                    \<and> take 5 s = ''ipfs:'')"
    have "storage_thumbnail env v = ''/header.png''"
    proof (cases "storage_ref v")
      case NoRef
      then show ?thesis by (simp add: storage_thumbnail_def ref_truthy_def)
    next
      case (RefArray xs)
      with noipfs show ?thesis
        by (cases xs)
           (auto simp: storage_thumbnail_def ref_truthy_def resolve_storage_ref_def)
    next
      case (RefString s)
      with noipfs show ?thesis
        by (auto simp: storage_thumbnail_def ref_truthy_def resolve_storage_ref_def)
    next
      case RefOther
      then show ?thesis
        by (simp add: storage_thumbnail_def ref_truthy_def resolve_storage_ref_def)
    qed
    with novid show "getVideoThumbnail env v = ''/header.png''" by (simp add: rest)
  qed
  show ?thesis
    by (rule conjI [OF playback conjI [OF ipfs fallback]])
qed

theorem thumbnail_priority_witness:
  "getVideoThumbnail (Some ''gw.example'')
      \<lparr>video_id = Some ''abc'', title = ''A'', uploader_principal = ''p'', timestamp = 5,
       storage_ref = RefString ''ipfs:Qm1''\<rparr>
     = ''https://vod-cdn.lp-playback.studio/hls/abc/thumbnails/keyframes_0.jpg''
 \<and> getVideoThumbnail (Some ''gw.example'')
      \<lparr>video_id = None, title = ''A'', uploader_principal = ''p'', timestamp = 5,
       storage_ref = RefArray [''ipfs:Qm1'']\<rparr>
     = ''https://gw.example/ipfs/Qm1/thumbnail.jpg''
 \<and> getVideoThumbnail None
      \<lparr>video_id = Some [], title = ''A'', uploader_principal = ''p'', timestamp = 5,
       storage_ref = RefString ''ipfs:Qm1''\<rparr>
     = ''https://salmon-worthy-hawk-798.mypinata.cloud/ipfs/Qm1/thumbnail.jpg''
 \<and> getVideoThumbnail None
      \<lparr>video_id = None, title = ''A'', uploader_principal = ''p'', timestamp = 5,
       storage_ref = RefString ''https://example.org/x''\<rparr>
     = ''/header.png''"
  using thumbnail_priority
          [where env = "Some ''gw.example'' " and vid = "''abc''" and r = "''ipfs:Qm1''"
             and rest = "[]"
             and v = "\<lparr>video_id = Some ''abc'', title = ''A'', uploader_principal = ''p'',
                       timestamp = 5, storage_ref = RefString ''ipfs:Qm1''\<rparr>"]
        thumbnail_priority
          [where env = "Some ''gw.example'' " and vid = "''abc''" and r = "''ipfs:Qm1''"
             and rest = "[]"
             and v = "\<lparr>video_id = None, title = ''A'', uploader_principal = ''p'',
                       timestamp = 5, storage_ref = RefArray [''ipfs:Qm1'']\<rparr>"]
        thumbnail_priority
          [where env = None and vid = "''abc''" and r = "''ipfs:Qm1''" and rest = "[]"
             and v = "\<lparr>video_id = Some [], title = ''A'', uploader_principal = ''p'',
                       timestamp = 5, storage_ref = RefString ''ipfs:Qm1''\<rparr>"]
        thumbnail_priority
          [where env = None and vid = "''abc''" and r = "''ipfs:Qm1''" and rest = "[]"
             and v = "\<lparr>video_id = None, title = ''A'', uploader_principal = ''p'',
                       timestamp = 5, storage_ref = RefString ''https://example.org/x''\<rparr>"]
  by simp


section \<open>VideoGrid: the key of the fetch\<close>

text \<open>
  C9. No tag, the empty tag and the tag \<open>all\<close> have the same key, and the key of the tag
  \<open>All\<close> is another one. Once the effect has run with one of the first three tags, a run
  with any of the three does not fetch and changes nothing, while a run with \<open>All\<close>
  fetches, and its calls are those of the search path: the search query if the client has
  one, and never the tag query.
\<close>

theorem refetch_key:
  "fetchId a None = fetchId a (Some []) \<and> fetchId a (Some []) = fetchId a (Some ''all'')
 \<and> fetchId a (Some ''All'') \<noteq> fetchId a (Some ''all'')
 \<and> (nested_actor a
      \<and> (t1 = None \<or> t1 = Some [] \<or> t1 = Some ''all'')
      \<and> (t2 = None \<or> t2 = Some [] \<or> t2 = Some ''all'')
      \<longrightarrow> load_effect toLowerCase (Some a) t2 (fst (snd (load_effect toLowerCase (Some a) t1 st)))
            = (False, fst (snd (load_effect toLowerCase (Some a) t1 st)), []))
 \<and> (nested_actor a \<and> (t1 = None \<or> t1 = Some [] \<or> t1 = Some ''all'')
      \<longrightarrow> fst (load_effect toLowerCase (Some a) (Some ''All'') (fst (snd (load_effect toLowerCase (Some a) t1 st))))
        \<and> snd (snd (load_effect toLowerCase (Some a) (Some ''All'') (fst (snd (load_effect toLowerCase (Some a) t1 st)))))
            = (case search_videos a of None \<Rightarrow> [] | Some search \<Rightarrow> [SearchVideos '''' [] []]))"
proof -
  have same: "fetchId a t = fetchId a (Some ''all'')"
    if "t = None \<or> t = Some [] \<or> t = Some ''all''" for t
    using that by (auto simp: fetchId_def or_else_def)
  have differ: "fetchId a (Some ''All'') \<noteq> fetchId a (Some ''all'')"
    by (simp add: fetchId_def or_else_def)
  have skip: "nested_actor a
      \<and> (t1 = None \<or> t1 = Some [] \<or> t1 = Some ''all'')
      \<and> (t2 = None \<or> t2 = Some [] \<or> t2 = Some ''all'')
      \<longrightarrow> load_effect toLowerCase (Some a) t2 (fst (snd (load_effect toLowerCase (Some a) t1 st)))
            = (False, fst (snd (load_effect toLowerCase (Some a) t1 st)), [])"
  proof (intro impI, elim conjE)
    assume ready: "nested_actor a"
      and t1: "t1 = None \<or> t1 = Some [] \<or> t1 = Some ''all''"
      and t2: "t2 = None \<or> t2 = Some [] \<or> t2 = Some ''all''"
    have "prevFetchId (fst (snd (load_effect toLowerCase (Some a) t1 st))) = Some (fetchId a t1)"
      using ready by (rule load_effect_key)
    also have "fetchId a t1 = fetchId a t2"
      using same [OF t1] same [OF t2] by simp
    finally show "load_effect toLowerCase (Some a) t2 (fst (snd (load_effect toLowerCase (Some a) t1 st)))
            = (False, fst (snd (load_effect toLowerCase (Some a) t1 st)), [])"
      by (rule load_effect_same)
  qed
  have refetch: "nested_actor a \<and> (t1 = None \<or> t1 = Some [] \<or> t1 = Some ''all'')
      \<longrightarrow> fst (load_effect toLowerCase (Some a) (Some ''All'') (fst (snd (load_effect toLowerCase (Some a) t1 st))))
        \<and> snd (snd (load_effect toLowerCase (Some a) (Some ''All'') (fst (snd (load_effect toLowerCase (Some a) t1 st)))))
            = (case search_videos a of None \<Rightarrow> [] | Some search \<Rightarrow> [SearchVideos '''' [] []])"
  proof (intro impI, elim conjE)
    assume ready: "nested_actor a"
      and t1: "t1 = None \<or> t1 = Some [] \<or> t1 = Some ''all''"
    let ?st1 = "fst (snd (load_effect toLowerCase (Some a) t1 st))"
    have "prevFetchId ?st1 = Some (fetchId a t1)"
      using ready by (rule load_effect_key)
    then have new: "prevFetchId ?st1 \<noteq> Some (fetchId a (Some ''All''))"
      using same [OF t1] differ by simp
    have calls: "snd (query_videos toLowerCase a (Some ''All''))
        = (case search_videos a of None \<Rightarrow> [] | Some search \<Rightarrow> [SearchVideos '''' [] []])"
      by (rule calls_search) simp
    show "fst (load_effect toLowerCase (Some a) (Some ''All'') ?st1)
        \<and> snd (snd (load_effect toLowerCase (Some a) (Some ''All'') ?st1))
            = (case search_videos a of None \<Rightarrow> [] | Some search \<Rightarrow> [SearchVideos '''' [] []])"
      by (simp add: load_effect_new [OF ready new] fetchVideos_calls calls)
  qed
  have keys: "fetchId a None = fetchId a (Some []) \<and> fetchId a (Some []) = fetchId a (Some ''all'')"
    by (simp add: fetchId_def or_else_def)
  show ?thesis
    by (rule conjI [OF conjunct1 [OF keys] conjI [OF conjunct2 [OF keys]
          conjI [OF differ conjI [OF skip refetch]]]])
qed

theorem refetch_key_witness:
  "load_effect ascii_toLowerCase
      (Some \<lparr>nested_actor = True, list_videos_by_tag = (\<lambda>t. Inr (JsArray [])),
             search_videos = Some (\<lambda>q f g. Inr (JsArray []))\<rparr>)
      (Some ''all'')
      (fst (snd (load_effect ascii_toLowerCase
         (Some \<lparr>nested_actor = True, list_videos_by_tag = (\<lambda>t. Inr (JsArray [])),
                search_videos = Some (\<lambda>q f g. Inr (JsArray []))\<rparr>)
         None initial_state)))
     = (False,
        \<lparr>videos = [], loading = False, error = None,
         prevFetchId = Some ''has-nested-actor-all''\<rparr>, [])
 \<and> snd (snd (load_effect ascii_toLowerCase
      (Some \<lparr>nested_actor = True, list_videos_by_tag = (\<lambda>t. Inr (JsArray [])),
             search_videos = Some (\<lambda>q f g. Inr (JsArray []))\<rparr>)
      (Some ''All'')
      (fst (snd (load_effect ascii_toLowerCase
         (Some \<lparr>nested_actor = True, list_videos_by_tag = (\<lambda>t. Inr (JsArray [])),
                search_videos = Some (\<lambda>q f g. Inr (JsArray []))\<rparr>)
         None initial_state)))))
     = [SearchVideos '''' [] []]"
  using refetch_key
          [where toLowerCase = ascii_toLowerCase
             and a = "\<lparr>nested_actor = True, list_videos_by_tag = (\<lambda>t. Inr (JsArray [])),
                       search_videos = Some (\<lambda>q f g. Inr (JsArray []))\<rparr>"
             and ?t1.0 = None and ?t2.0 = "Some ''all''" and st = initial_state]
  by (simp add: initial_state_def load_effect_def start_fetch_def settle_fetch_def fetchVideos_def fetchId_def or_else_def
        try_block_def query_videos_def sort_videos_def truthy_def)


section \<open>VideoGrid: a failed fetch empties the collection\<close>

lemma load_effect_start_settle:
  "fst (snd (load_effect toLowerCase actor tag st))
   = (case start_fetch actor tag st of
        (st1, None) \<Rightarrow> st1
      | (st1, Some f) \<Rightarrow> settle_fetch toLowerCase f st1)"
  by (simp add: load_effect_def start_fetch_def settle_fetch_def split: option.splits)

lemma effect_then_settle:
  "run_events toLowerCase [EffectRuns actor tag, FetchSettles 0] (st, [])
   = (fst (snd (load_effect toLowerCase actor tag st)), [])"
  by (simp add: load_effect_def start_fetch_def settle_fetch_def split: option.splits)

text \<open>
  C10, as the source has it. A fetch that settles with an exception in the outer
  \<open>catch\<close> stores the message and the empty collection together, whatever the state is
  at that moment. When each fetch settles before the next run of the effect (the effect
  followed by \<open>FetchSettles 0\<close> is \<open>load_effect\<close>), a state with an error holds no video:
  this holds at the start and every such run keeps it, and it holds after every run that
  fetches, whatever the state was before.
\<close>

theorem failed_fetch_empties_videos:
  "(try_block toLowerCase a tag = Inl e
      \<longrightarrow> error (settle_fetch toLowerCase (a, tag) st)
            = Some (''Failed to load videos: '' @ exn_text e)
        \<and> videos (settle_fetch toLowerCase (a, tag) st) = [])
 \<and> run_events toLowerCase [EffectRuns actor tag, FetchSettles 0] (st, [])
      = (fst (snd (load_effect toLowerCase actor tag st)), [])
 \<and> (fst (load_effect toLowerCase actor tag st)
      \<and> error (fst (snd (load_effect toLowerCase actor tag st))) \<noteq> None
      \<longrightarrow> videos (fst (snd (load_effect toLowerCase actor tag st))) = [])
 \<and> ((error st \<noteq> None \<longrightarrow> videos st = [])
      \<longrightarrow> (error (fst (snd (load_effect toLowerCase actor tag st))) \<noteq> None
            \<longrightarrow> videos (fst (snd (load_effect toLowerCase actor tag st))) = []))
 \<and> (error initial_state \<noteq> None \<longrightarrow> videos initial_state = [])"
proof -
  have thrown: "try_block toLowerCase a tag = Inl e
      \<longrightarrow> error (settle_fetch toLowerCase (a, tag) st)
            = Some (''Failed to load videos: '' @ exn_text e)
        \<and> videos (settle_fetch toLowerCase (a, tag) st) = []"
    by (simp add: settle_fetch_def fetchVideos_thrown)
  have fetched: "videos (fst (snd (load_effect toLowerCase actor tag st))) = []"
    if run: "fst (load_effect toLowerCase actor tag st)"
      and failed: "error (fst (snd (load_effect toLowerCase actor tag st))) \<noteq> None"
  proof (cases actor)
    case None
    with run show ?thesis by (simp add: load_effect_def start_fetch_def settle_fetch_def)
  next
    case (Some b)
    let ?st1 = "st\<lparr>loading := True, error := None, prevFetchId := Some (fetchId b tag)\<rparr>"
    from run Some have ready: "nested_actor b" and new: "prevFetchId st \<noteq> Some (fetchId b tag)"
      by (auto simp: load_effect_def start_fetch_def settle_fetch_def split: if_splits)
    then have st': "fst (snd (load_effect toLowerCase actor tag st))
        = fst (fetchVideos toLowerCase (Some b) tag ?st1)"
      by (simp add: Some load_effect_new)
    show ?thesis
    proof (cases "try_block toLowerCase b tag")
      case (Inl x)
      then show ?thesis by (simp add: st' fetchVideos_thrown)
    next
      case (Inr vs)
      with failed show ?thesis by (simp add: st' fetchVideos_returned)
    qed
  qed
  have kept: "(error st \<noteq> None \<longrightarrow> videos st = [])
      \<longrightarrow> (error (fst (snd (load_effect toLowerCase actor tag st))) \<noteq> None
            \<longrightarrow> videos (fst (snd (load_effect toLowerCase actor tag st))) = [])"
  proof (cases "fst (load_effect toLowerCase actor tag st)")
    case True
    then show ?thesis using fetched by blast
  next
    case False
    then have "fst (snd (load_effect toLowerCase actor tag st)) = st"
      by (auto simp: load_effect_def start_fetch_def settle_fetch_def split: option.splits if_splits)
    then show ?thesis by simp
  qed
  have init: "error initial_state \<noteq> None \<longrightarrow> videos initial_state = []"
    by (simp add: initial_state_def)
  from fetched have fetched': "fst (load_effect toLowerCase actor tag st)
      \<and> error (fst (snd (load_effect toLowerCase actor tag st))) \<noteq> None
      \<longrightarrow> videos (fst (snd (load_effect toLowerCase actor tag st))) = []"
    by blast
  show ?thesis
    by (rule conjI [OF thrown conjI [OF effect_then_settle conjI [OF fetched'
          conjI [OF kept init]]]])
qed

theorem failed_fetch_empties_videos_witness:
  "error (fst (snd (load_effect ascii_toLowerCase
      (Some \<lparr>nested_actor = True, list_videos_by_tag = (\<lambda>t. Inr (JsArray [])),
             search_videos = Some (\<lambda>q f g. Inr JsNull)\<rparr>)
      None
      \<lparr>videos = [\<lparr>video_id = Some ''a'', title = ''A'', uploader_principal = ''p'',
                  timestamp = 5, storage_ref = NoRef\<rparr>],
       loading = False, error = None, prevFetchId = Some ''has-nested-actor-comedy''\<rparr>)))
     = Some ''Failed to load videos: Cannot read properties of null (reading 'length')''
 \<and> videos (fst (snd (load_effect ascii_toLowerCase
      (Some \<lparr>nested_actor = True, list_videos_by_tag = (\<lambda>t. Inr (JsArray [])),
             search_videos = Some (\<lambda>q f g. Inr JsNull)\<rparr>)
      None
      \<lparr>videos = [\<lparr>video_id = Some ''a'', title = ''A'', uploader_principal = ''p'',
                  timestamp = 5, storage_ref = NoRef\<rparr>],
       loading = False, error = None, prevFetchId = Some ''has-nested-actor-comedy''\<rparr>)))
     = []
 \<and> videos (settle_fetch ascii_toLowerCase
      (\<lparr>nested_actor = True, list_videos_by_tag = (\<lambda>t. Inr (JsArray [])),
        search_videos = Some (\<lambda>q f g. Inr JsNull)\<rparr>, None)
      \<lparr>videos = [\<lparr>video_id = Some ''a'', title = ''A'', uploader_principal = ''p'',
                  timestamp = 5, storage_ref = NoRef\<rparr>],
       loading = False, error = None, prevFetchId = Some ''has-nested-actor-comedy''\<rparr>)
     = []"
  using failed_fetch_empties_videos
          [where toLowerCase = ascii_toLowerCase
             and a = "\<lparr>nested_actor = True, list_videos_by_tag = (\<lambda>t. Inr (JsArray [])),
                       search_videos = Some (\<lambda>q f g. Inr JsNull)\<rparr>"
             and actor = "Some \<lparr>nested_actor = True,
                                list_videos_by_tag = (\<lambda>t. Inr (JsArray [])),
                                search_videos = Some (\<lambda>q f g. Inr JsNull)\<rparr>"
             and tag = None and e = "cannot_read_length ''null''"
             and st = "\<lparr>videos = [\<lparr>video_id = Some ''a'', title = ''A'',
                                    uploader_principal = ''p'', timestamp = 5,
                                    storage_ref = NoRef\<rparr>],
                        loading = False, error = None,
                        prevFetchId = Some ''has-nested-actor-comedy''\<rparr>"]
  by (simp add: load_effect_def start_fetch_def settle_fetch_def fetchVideos_def fetchId_def or_else_def settle_fetch_def
        try_block_def query_videos_def sort_videos_def truthy_def cannot_read_length_def)

text \<open>
  C10 as the spec words it has the error never beside a collection left from another
  fetch. Two fetches that overlap give exactly that. The first effect starts a fetch
  for the tag \<open>comedy\<close>; before it settles the tag is dropped and the second effect
  starts a fetch whose search query resolves to \<open>null\<close>. The second fetch settles
  first: it stores the error and the empty collection. Then the first fetch settles:
  it stores its video and leaves the error where it is.
\<close>

theorem overlapping_fetches_counterexample:
  "error (fst (run_events ascii_toLowerCase
      [EffectRuns
         (Some \<lparr>nested_actor = True,
                list_videos_by_tag = (\<lambda>t. Inr (JsArray
                  [\<lparr>video_id = Some ''a'', title = ''A'', uploader_principal = ''p'',
                    timestamp = 5, storage_ref = NoRef\<rparr>])),
                search_videos = Some (\<lambda>q f g. Inr JsNull)\<rparr>)
         (Some ''comedy''),
       EffectRuns
         (Some \<lparr>nested_actor = True,
                list_videos_by_tag = (\<lambda>t. Inr (JsArray
                  [\<lparr>video_id = Some ''a'', title = ''A'', uploader_principal = ''p'',
                    timestamp = 5, storage_ref = NoRef\<rparr>])),
                search_videos = Some (\<lambda>q f g. Inr JsNull)\<rparr>)
         None,
       FetchSettles 1,
       FetchSettles 0]
      (initial_state, [])))
     = Some ''Failed to load videos: Cannot read properties of null (reading 'length')''
 \<and> videos (fst (run_events ascii_toLowerCase
      [EffectRuns
         (Some \<lparr>nested_actor = True,
                list_videos_by_tag = (\<lambda>t. Inr (JsArray
                  [\<lparr>video_id = Some ''a'', title = ''A'', uploader_principal = ''p'',
                    timestamp = 5, storage_ref = NoRef\<rparr>])),
                search_videos = Some (\<lambda>q f g. Inr JsNull)\<rparr>)
         (Some ''comedy''),
       EffectRuns
         (Some \<lparr>nested_actor = True,
                list_videos_by_tag = (\<lambda>t. Inr (JsArray
                  [\<lparr>video_id = Some ''a'', title = ''A'', uploader_principal = ''p'',
                    timestamp = 5, storage_ref = NoRef\<rparr>])),
                search_videos = Some (\<lambda>q f g. Inr JsNull)\<rparr>)
         None,
       FetchSettles 1,
       FetchSettles 0]
      (initial_state, [])))
     = [\<lparr>video_id = Some ''a'', title = ''A'', uploader_principal = ''p'',
         timestamp = 5, storage_ref = NoRef\<rparr>]"
  by (simp add: initial_state_def start_fetch_def settle_fetch_def fetchVideos_def
        fetchId_def or_else_def try_block_def query_videos_def sort_videos_def truthy_def
        cannot_read_length_def ascii_toLowerCase_def lower_char_def)


section \<open>VideoGrid: the view count\<close>

lemma round_div_error:
  assumes "0 < b"
  shows "2 * \<bar>int (round_div a b) * int b - int a\<bar> \<le> int b"
proof -
  define q where "q = a div b"
  define r where "r = a mod b"
  have a: "int a = int q * int b + int r"
    unfolding q_def r_def by (metis div_mult_mod_eq of_nat_add of_nat_mult)
  have r: "r < b"
    unfolding r_def using assms by simp
  have rd: "round_div a b = (if 2 * r < b then q else if b < 2 * r then q + 1
                              else if even q then q else q + 1)"
    by (simp add: round_div_def q_def r_def Let_def)
  show ?thesis
    using r by (auto simp: rd a algebra_simps)
qed

lemma tenths_error:
  "\<bar>20 * int m - 2 * 2 ^ s * int (tenths \<lparr>mantissa = m, scale = s\<rparr>)\<bar> \<le> 2 ^ s"
proof -
  define p :: nat where "p = 2 ^ s"
  define t where "t = (20 * m + p) div (2 * p)"
  have p: "0 < p" by (simp add: p_def)
  have t: "tenths \<lparr>mantissa = m, scale = s\<rparr> = t"
    by (simp add: tenths_def t_def p_def)
  have lower: "t * (2 * p) \<le> 20 * m + p"
    unfolding t_def by (rule div_times_less_eq_dividend)
  have upper: "20 * m + p < (t + 1) * (2 * p)"
    unfolding t_def using p by (simp add: dividend_less_div_times)
  have "int (t * (2 * p)) \<le> int (20 * m + p)"
    using lower by (simp only: of_nat_le_iff)
  then have lower': "2 * int p * int t \<le> 20 * int m + int p"
    by (simp add: algebra_simps)
  have "int (20 * m + p) < int ((t + 1) * (2 * p))"
    using upper by (simp only: of_nat_less_iff)
  then have upper': "20 * int m + int p < 2 * int p * int t + 2 * int p"
    by (simp add: algebra_simps)
  from lower' upper' have "\<bar>20 * int m - 2 * int p * int t\<bar> \<le> int p"
    by linarith
  then show ?thesis
    by (simp add: t p_def)
qed

lemma two_steps_apart:
  fixes A B C D e :: int
  assumes "\<bar>A - C\<bar> \<le> 5 * e" and "\<bar>A - B\<bar> * 2 \<le> D"
  shows "2 * \<bar>B - C\<bar> \<le> D + 10 * e"
  using assms by arith

text \<open>
  The tenth printed for \<open>n / d\<close>, with \<open>d\<close> ten times an even \<open>e\<close>, is a tenth
  nearest to the exact quotient: the double division is accurate enough not to move it.
\<close>

lemma tenths_js_div_nearest:
  assumes d: "d = 10 * e" and e: "even e" "0 < e"
    and k: "n div d < 2 ^ k" "k \<le> 53" "5 * e < 2 ^ (53 - k)"
  shows "2 * \<bar>int e * int (tenths (js_div n d)) - int n\<bar> \<le> int e"
proof -
  define l where "l = bit_length (n div d)"
  define s where "s = 53 - l"
  define p :: int where "p = 2 ^ s"
  define m where "m = round_div (n * 2 ^ s) d"
  define t where "t = tenths (js_div n d)"
  have l: "l \<le> k"
    unfolding l_def using k(1) by (rule bit_length_le)
  with k(2) have l53: "l \<le> 53" by simp
  have x: "js_div n d = \<lparr>mantissa = m, scale = s\<rparr>"
    using l53 by (simp add: js_div_def l_def s_def m_def Let_def)
  have pk: "(2::int) ^ (53 - k) \<le> 2 ^ s"
    unfolding s_def using l by (intro power_increasing) auto
  have ek: "5 * int e < 2 ^ (53 - k)"
    using k(3) by (metis of_nat_less_iff of_nat_mult of_nat_numeral of_nat_power)
  from ek pk have p5: "5 * int e < p"
    unfolding p_def by (rule less_le_trans)
  have p0: "0 < p"
    by (simp add: p_def)
  have "0 < d" using d e by simp
  then have "2 * \<bar>int m * int d - int (n * 2 ^ s)\<bar> \<le> int d"
    unfolding m_def by (rule round_div_error)
  then have a: "\<bar>10 * int m * int e - int n * p\<bar> \<le> 5 * int e"
    by (simp add: d p_def algebra_simps)
  have "\<bar>20 * int m - 2 * 2 ^ s * int t\<bar> \<le> 2 ^ s"
    unfolding t_def x by (rule tenths_error)
  moreover have "20 * int m - 2 * 2 ^ s * int t = (10 * int m - p * int t) * 2"
    by (simp add: p_def algebra_simps)
  ultimately have b: "\<bar>10 * int m - p * int t\<bar> * 2 \<le> p"
    by (simp only: abs_mult p_def)
  have "10 * int m * int e - p * int t * int e = (10 * int m - p * int t) * int e"
    by (simp add: algebra_simps)
  then have "\<bar>10 * int m * int e - p * int t * int e\<bar> = \<bar>10 * int m - p * int t\<bar> * int e"
    by (simp only: abs_mult abs_of_nat)
  then have "\<bar>10 * int m * int e - p * int t * int e\<bar> * 2 = (\<bar>10 * int m - p * int t\<bar> * 2) * int e"
    by simp
  also have "\<dots> \<le> p * int e"
    using b by (intro mult_right_mono) auto
  finally have b': "\<bar>10 * int m * int e - p * int t * int e\<bar> * 2 \<le> p * int e" .
  define E where "E = int e * int t - int n"
  have "p * int t * int e - int n * p = p * E"
    by (simp add: E_def algebra_simps)
  then have "\<bar>p * int t * int e - int n * p\<bar> = p * \<bar>E\<bar>"
    using p0 by (simp only: abs_mult abs_of_pos)
  then have "p * (2 * \<bar>E\<bar>) = 2 * \<bar>p * int t * int e - int n * p\<bar>"
    by simp
  also have "\<dots> \<le> p * int e + 10 * int e"
    using a b' by (rule two_steps_apart)
  finally have bound: "p * (2 * \<bar>E\<bar>) \<le> p * int e + 10 * int e" .
  have "2 * \<bar>E\<bar> \<le> int e"
  proof (rule ccontr)
    assume "\<not> 2 * \<bar>E\<bar> \<le> int e"
    moreover have "even (int e)" using e(1) by simp
    ultimately have "int e + 2 \<le> 2 * \<bar>E\<bar>"
      by presburger
    then have "p * (int e + 2) \<le> p * (2 * \<bar>E\<bar>)"
      using p0 by (intro mult_left_mono) auto
    with bound have "p * (int e + 2) \<le> p * int e + 10 * int e" by linarith
    then have "2 * p \<le> 10 * int e" by (simp add: algebra_simps)
    with p5 show False by linarith
  qed
  then show ?thesis by (simp add: E_def t_def)
qed

lemma tenths_digit: "show_nat (t mod 10) = [digit_char (t mod 10)]"
  by (simp add: show_nat.simps [of "t mod 10"])

text \<open>
  C8. For a count that a number holds exactly (below \<open>2^53\<close>): below 1,000 the result
  is the decimal string of the count. From 1,000 up to 1,000,000 it is a number with
  one decimal place followed by \<open>K\<close>, and that number (\<open>t\<close> tenths) is within a
  twentieth of the count divided by 1,000, so it is the count in thousands rounded to
  one decimal place. From 1,000,000 on it is the same in millions, followed by \<open>M\<close>.
  999 gives \<open>999\<close>, 1500 gives \<open>1.5K\<close> and 2,500,000 gives \<open>2.5M\<close>.
\<close>

theorem formatViewCount_abbreviates:
  assumes "cnt < 2 ^ 53"
  shows "(cnt < 1000 \<longrightarrow> formatViewCount cnt = show_nat cnt)
       \<and> (1000 \<le> cnt \<and> cnt < 1000000
            \<longrightarrow> (\<exists>t. formatViewCount cnt
                         = show_nat (t div 10) @ ''.'' @ [digit_char (t mod 10)] @ ''K''
                     \<and> 2 * \<bar>100 * int t - int cnt\<bar> \<le> 100))
       \<and> (1000000 \<le> cnt
            \<longrightarrow> (\<exists>t. formatViewCount cnt
                         = show_nat (t div 10) @ ''.'' @ [digit_char (t mod 10)] @ ''M''
                     \<and> 2 * \<bar>100000 * int t - int cnt\<bar> \<le> 100000))
       \<and> formatViewCount 999 = ''999''
       \<and> formatViewCount 1500 = ''1.5K''
       \<and> formatViewCount 2500000 = ''2.5M''"
proof -
  have plain: "cnt < 1000 \<longrightarrow> formatViewCount cnt = show_nat cnt"
    by (simp add: formatViewCount_def)
  have thousands: "1000 \<le> cnt \<and> cnt < 1000000
      \<longrightarrow> (\<exists>t. formatViewCount cnt
                   = show_nat (t div 10) @ ''.'' @ [digit_char (t mod 10)] @ ''K''
               \<and> 2 * \<bar>100 * int t - int cnt\<bar> \<le> 100)"
  proof (intro impI, elim conjE)
    assume range: "1000 \<le> cnt" "cnt < 1000000"
    let ?t = "tenths (js_div cnt 1000)"
    have "cnt div 1000 < 2 ^ 10" using range by simp
    then have "2 * \<bar>int 100 * int ?t - int cnt\<bar> \<le> int 100"
      by (intro tenths_js_div_nearest [where k = 10]) simp_all
    moreover have "formatViewCount cnt
        = show_nat (?t div 10) @ ''.'' @ [digit_char (?t mod 10)] @ ''K''"
      using range by (simp add: formatViewCount_def toFixed1_def tenths_digit)
    ultimately show "\<exists>t. formatViewCount cnt
                   = show_nat (t div 10) @ ''.'' @ [digit_char (t mod 10)] @ ''K''
               \<and> 2 * \<bar>100 * int t - int cnt\<bar> \<le> 100"
      by auto
  qed
  have millions: "1000000 \<le> cnt
      \<longrightarrow> (\<exists>t. formatViewCount cnt
                   = show_nat (t div 10) @ ''.'' @ [digit_char (t mod 10)] @ ''M''
               \<and> 2 * \<bar>100000 * int t - int cnt\<bar> \<le> 100000)"
  proof
    assume range: "1000000 \<le> cnt"
    let ?t = "tenths (js_div cnt 1000000)"
    have "cnt div 1000000 < 2 ^ 34" using assms by simp
    then have "2 * \<bar>int 100000 * int ?t - int cnt\<bar> \<le> int 100000"
      by (intro tenths_js_div_nearest [where k = 34]) simp_all
    moreover have "formatViewCount cnt
        = show_nat (?t div 10) @ ''.'' @ [digit_char (?t mod 10)] @ ''M''"
      using range by (simp add: formatViewCount_def toFixed1_def tenths_digit)
    ultimately show "\<exists>t. formatViewCount cnt
                   = show_nat (t div 10) @ ''.'' @ [digit_char (t mod 10)] @ ''M''
               \<and> 2 * \<bar>100000 * int t - int cnt\<bar> \<le> 100000"
      by auto
  qed
  have ex1: "formatViewCount 999 = ''999''"
    by (simp add: formatViewCount_def show_nat.simps digit_char_def)
  have ex2: "formatViewCount 1500 = ''1.5K''"
    by (simp add: formatViewCount_def toFixed1_def tenths_def js_div_def round_div_def
          bit_length.simps show_nat.simps digit_char_def)
  have ex3: "formatViewCount 2500000 = ''2.5M''"
    by (simp add: formatViewCount_def toFixed1_def tenths_def js_div_def round_div_def
          bit_length.simps show_nat.simps digit_char_def)
  show ?thesis
    by (rule conjI [OF plain conjI [OF thousands conjI [OF millions
          conjI [OF ex1 conjI [OF ex2 ex3]]]]])
qed

theorem formatViewCount_abbreviates_witness:
  "formatViewCount 42 = show_nat 42
 \<and> (\<exists>t. formatViewCount 1150
           = show_nat (t div 10) @ ''.'' @ [digit_char (t mod 10)] @ ''K''
       \<and> 2 * \<bar>100 * int t - int 1150\<bar> \<le> 100)
 \<and> (\<exists>t. formatViewCount 19999999
           = show_nat (t div 10) @ ''.'' @ [digit_char (t mod 10)] @ ''M''
       \<and> 2 * \<bar>100000 * int t - int 19999999\<bar> \<le> 100000)"
  using formatViewCount_abbreviates [of 42] formatViewCount_abbreviates [of 1150]
        formatViewCount_abbreviates [of 19999999]
  by simp

end
